theory Spec2Isabelle
  imports Main "HOL-Library.Char_ord" "HOL-Library.List_Lexorder" "HOL-Library.AList"
begin

section \<open>Hardware comparison and sensor validation: a shallow embedding\<close>

text \<open>
  The development follows \<^verbatim>\<open>hw_diff_module.py\<close> (class \<^verbatim>\<open>HardwareDiff\<close>) and
  \<^verbatim>\<open>sensor_validator.py\<close> (class \<^verbatim>\<open>SensorValidator\<close>).  Python strings are HOL
  strings; the model covers ASCII text (case conversion leaves other characters alone).
  Dictionaries that are only looked up are maps, dictionaries that are iterated are
  association lists in insertion order.  An exception is a value \<open>Inl e\<close> of a sum type.
\<close>

subsection \<open>Python string operations\<close>

text \<open>The exception a comparator can raise, with the name it could not resolve.\<close>

datatype py_error = NameError string

text \<open>\<^verbatim>\<open>s.startswith(p)\<close>\<close>

fun startswith :: "string \<Rightarrow> string \<Rightarrow> bool" where
  "startswith s [] = True"
| "startswith [] (p # ps) = False"
| "startswith (c # cs) (p # ps) = (c = p \<and> startswith cs ps)"

text \<open>\<^verbatim>\<open>s.endswith(p)\<close>\<close>

definition endswith :: "string \<Rightarrow> string \<Rightarrow> bool" where
  "endswith s p = startswith (rev s) (rev p)"

text \<open>\<^verbatim>\<open>sub in s\<close> for two strings\<close>

fun contains :: "string \<Rightarrow> string \<Rightarrow> bool" where
  "contains sub [] = (sub = [])"
| "contains sub (c # cs) = (startswith (c # cs) sub \<or> contains sub cs)"

text \<open>\<^verbatim>\<open>any(k in s for k in keywords)\<close>\<close>

definition any_in :: "string list \<Rightarrow> string \<Rightarrow> bool" where
  "any_in keywords s = list_ex (\<lambda>k. contains k s) keywords"

definition lower_char :: "char \<Rightarrow> char" where
  "lower_char c = (if CHR ''A'' \<le> c \<and> c \<le> CHR ''Z'' then char_of (of_char c + (32::nat)) else c)"

definition upper_char :: "char \<Rightarrow> char" where
  "upper_char c = (if CHR ''a'' \<le> c \<and> c \<le> CHR ''z'' then char_of (of_char c - (32::nat)) else c)"

definition lower :: "string \<Rightarrow> string" where
  "lower s = map lower_char s"

definition upper :: "string \<Rightarrow> string" where
  "upper s = map upper_char s"

text \<open>The characters \<^verbatim>\<open>str.strip()\<close> removes: tab, line feed, vertical tab, form feed,
  carriage return, the separators \<open>0x1c\<close> to \<open>0x1f\<close> and the space.\<close>

definition is_space :: "char \<Rightarrow> bool" where
  "is_space c = (let n = (of_char c :: nat) in (9 \<le> n \<and> n \<le> 13) \<or> (28 \<le> n \<and> n \<le> 32))"

definition strip :: "string \<Rightarrow> string" where
  "strip s = rev (dropWhile is_space (rev (dropWhile is_space s)))"

text \<open>\<^verbatim>\<open>s.split(p)[0]\<close> for a non-empty separator \<open>p\<close>: the text before its first
  occurrence, the whole string when there is none.\<close>

fun split_first :: "string \<Rightarrow> string \<Rightarrow> string" where
  "split_first p [] = []"
| "split_first p (c # cs) = (if startswith (c # cs) p then [] else c # split_first p cs)"

text \<open>\<^verbatim>\<open>s.replace(p, '')\<close> for a non-empty \<open>p\<close>: every occurrence, left to right.\<close>

function remove_all :: "string \<Rightarrow> string \<Rightarrow> string" where
  "remove_all p [] = []"
| "remove_all p (c # cs) =
     (if p \<noteq> [] \<and> startswith (c # cs) p then remove_all p (drop (length p - 1) cs)
      else c # remove_all p cs)"
  by pat_completeness auto

termination
  by (relation "measure (\<lambda>(p, s). length s)") auto

definition is_digit :: "char \<Rightarrow> bool" where
  "is_digit c = (CHR ''0'' \<le> c \<and> c \<le> CHR ''9'')"

definition digit_val :: "char \<Rightarrow> nat" where
  "digit_val c = of_char c - 48"

text \<open>\<^verbatim>\<open>s.isdigit()\<close>\<close>

definition isdigit :: "string \<Rightarrow> bool" where
  "isdigit s = (s \<noteq> [] \<and> list_all is_digit s)"

text \<open>The digits of a Python integer literal after its first digit: single underscores
  may stand between digits.\<close>

fun digits_value :: "nat \<Rightarrow> string \<Rightarrow> nat option" where
  "digits_value acc [] = Some acc"
| "digits_value acc [c] = (if is_digit c then Some (acc * 10 + digit_val c) else None)"
| "digits_value acc (c # d # ds) =
     (if is_digit c then digits_value (acc * 10 + digit_val c) (d # ds)
      else if c = CHR ''_'' \<and> is_digit d then digits_value (acc * 10 + digit_val d) ds
      else None)"

definition py_digits :: "string \<Rightarrow> nat option" where
  "py_digits s = (case s of [] \<Rightarrow> None
     | c # cs \<Rightarrow> if is_digit c then digits_value (digit_val c) cs else None)"

text \<open>\<^verbatim>\<open>int(s)\<close>: \<open>None\<close> stands for \<^verbatim>\<open>ValueError\<close>.  (Texts of more than 4300
  digits, which recent interpreters refuse to convert, are not distinguished.)\<close>

definition py_int :: "string \<Rightarrow> int option" where
  "py_int s = (case strip s of [] \<Rightarrow> None
     | c # cs \<Rightarrow>
         if c = CHR ''-'' then map_option (\<lambda>n. - int n) (py_digits cs)
         else if c = CHR ''+'' then map_option int (py_digits cs)
         else map_option int (py_digits (c # cs)))"

text \<open>\<^verbatim>\<open>str(n)\<close> for integers\<close>

definition digit_char :: "nat \<Rightarrow> char" where
  "digit_char d = ''0123456789'' ! d"

function str_nat :: "nat \<Rightarrow> string" where
  "str_nat n = (if n < 10 then [digit_char n] else str_nat (n div 10) @ [digit_char (n mod 10)])"
  by pat_completeness auto

termination
  by (relation "measure id") auto

declare str_nat.simps [simp del]

definition str_int :: "int \<Rightarrow> string" where
  "str_int i = (if i < 0 then CHR ''-'' # str_nat (nat (- i)) else str_nat (nat i))"

text \<open>\<^verbatim>\<open>str(d.get(key))\<close> for a text field: a missing key prints as \<^verbatim>\<open>None\<close>.\<close>

definition str_opt :: "string option \<Rightarrow> string" where
  "str_opt v = (case v of None \<Rightarrow> ''None'' | Some s \<Rightarrow> s)"

text \<open>\<^verbatim>\<open>d.get(key, default)\<close> for a text field\<close>

definition get_or :: "string option \<Rightarrow> string \<Rightarrow> string" where
  "get_or v d = (case v of None \<Rightarrow> d | Some s \<Rightarrow> s)"

subsection \<open>Status escalation\<close>

text \<open>\<^verbatim>\<open>HardwareDiff.STATUS_PRIORITY\<close>\<close>

definition STATUS_PRIORITY :: "(string \<times> nat) list" where
  "STATUS_PRIORITY =
     [(''PASS'', 0), (''WARNING'', 1), (''FAIL'', 2), (''ERROR'', 3), (''UNKNOWN'', 4)]"

text \<open>\<^verbatim>\<open>STATUS_PRIORITY.get(s, 0)\<close>\<close>

definition priority :: "string \<Rightarrow> nat" where
  "priority s = (case map_of STATUS_PRIORITY s of None \<Rightarrow> 0 | Some p \<Rightarrow> p)"

text \<open>\<^verbatim>\<open>HardwareDiff._escalate_status\<close>\<close>

definition escalate_status :: "string \<Rightarrow> string \<Rightarrow> string" where
  "escalate_status current_status new_status =
     (let current_priority = priority current_status;
          new_priority = priority new_status
      in if new_priority > current_priority then new_status else current_status)"

text \<open>The five statuses of the enumeration: the keys of the priority table.\<close>

definition statuses :: "string list" where
  "statuses = map fst STATUS_PRIORITY"

subsection \<open>Comparison results\<close>

text \<open>
  A comparator builds a dictionary with the keys \<^verbatim>\<open>status\<close> and \<^verbatim>\<open>differences\<close>.  The
  report-only entries \<^verbatim>\<open>summary\<close> and \<^verbatim>\<open>details\<close>, which no branch reads back, are
  modelled where a property below speaks of them.  A finding is appended to the list and
  the status is escalated with its severity.
\<close>

record 'd diff_result =
  status :: string
  differences :: "'d list"

definition add_difference ::
  "('d, 'z) diff_result_scheme \<Rightarrow> 'd \<Rightarrow> string \<Rightarrow> ('d, 'z) diff_result_scheme" where
  "add_difference r d severity =
     r\<lparr>differences := differences r @ [d], status := escalate_status (status r) severity\<rparr>"

text \<open>
  Python iterates a \<^verbatim>\<open>set\<close> of strings in an order that depends on the hash seed of the
  process.  A comparator that loops over \<^verbatim>\<open>set(a) | set(b)\<close> therefore takes that order as
  an argument: any list of exactly the keys of the set, each once.
\<close>

definition set_iteration :: "string list \<Rightarrow> string set \<Rightarrow> bool" where
  "set_iteration order keys \<longleftrightarrow> distinct order \<and> set order = keys"

text \<open>\<^verbatim>\<open>{key(x): x for x in xs}\<close>, used for lookups: a later entry replaces an earlier one.\<close>

definition dict_by :: "('a \<Rightarrow> string) \<Rightarrow> 'a list \<Rightarrow> (string \<rightharpoonup> 'a)" where
  "dict_by key xs = map_of (rev (map (\<lambda>x. (key x, x)) xs))"

subsection \<open>Processors\<close>

text \<open>A processor record: \<^verbatim>\<open>socket\<close> is read with \<^verbatim>\<open>cpu['socket']\<close>, the other keys with
  \<^verbatim>\<open>get\<close> (\<open>None\<close> for a missing key).  A core or thread count is an integer or a text
  such as \<^verbatim>\<open>'Unknown'\<close>.\<close>

datatype jvalue = JInt int | JStr string

definition str_jvalue :: "jvalue option \<Rightarrow> string" where
  "str_jvalue v = (case v of None \<Rightarrow> ''None'' | Some (JInt i) \<Rightarrow> str_int i | Some (JStr s) \<Rightarrow> s)"

record processor =
  cpu_socket :: string
  cpu_model :: "string option"
  cpu_cores :: "jvalue option"
  cpu_threads :: "jvalue option"

text \<open>The cores block of \<^verbatim>\<open>compare_processors\<close>.  Its two reporting branches use the name
  \<^verbatim>\<open>result\<close>, which the function never binds (its dictionary is \<^verbatim>\<open>diff_result\<close>): they
  raise \<^verbatim>\<open>NameError\<close>.  \<^verbatim>\<open>isinstance(baseline_cores, (int, str))\<close> holds for a present
  value.\<close>

definition compare_cores ::
  "jvalue option \<Rightarrow> jvalue option \<Rightarrow> string diff_result \<Rightarrow> py_error + string diff_result" where
  "compare_cores current_cores baseline_cores r =
     (if current_cores \<noteq> baseline_cores then
        (if current_cores = Some (JStr ''Unknown'') \<and> baseline_cores \<noteq> None
            \<and> baseline_cores \<noteq> Some (JStr ''Unknown'')
         then Inl (NameError ''result'')
         else if current_cores = Some (JStr ''Unknown'') \<and> baseline_cores = Some (JStr ''Unknown'')
         then Inr r
         else if baseline_cores = Some (JStr ''Unknown'') \<and> current_cores \<noteq> Some (JStr ''Unknown'')
         then Inr r
         else Inl (NameError ''result''))
      else Inr r)"

definition compare_threads :: "string \<Rightarrow> processor \<Rightarrow> processor \<Rightarrow> string diff_result \<Rightarrow> string diff_result" where
  "compare_threads socket_name current_cpu baseline_cpu r =
     (if cpu_threads current_cpu \<noteq> cpu_threads baseline_cpu
      then add_difference r
             (''CPU '' @ socket_name @ '' threads mismatch: '' @ str_jvalue (cpu_threads current_cpu)
                @ '' vs '' @ str_jvalue (cpu_threads baseline_cpu)) ''FAIL''
      else r)"

definition compare_model :: "string \<Rightarrow> processor \<Rightarrow> processor \<Rightarrow> string diff_result \<Rightarrow> string diff_result" where
  "compare_model socket_name current_cpu baseline_cpu r =
     (if cpu_model current_cpu \<noteq> cpu_model baseline_cpu
      then add_difference r
             (''CPU '' @ socket_name @ '' model mismatch: '' @ str_opt (cpu_model current_cpu)
                @ '' vs '' @ str_opt (cpu_model baseline_cpu)) ''FAIL''
      else r)"

text \<open>The body of the loop over the sockets.\<close>

definition compare_socket ::
  "(string \<rightharpoonup> processor) \<Rightarrow> (string \<rightharpoonup> processor) \<Rightarrow> string \<Rightarrow> string diff_result
     \<Rightarrow> py_error + string diff_result" where
  "compare_socket current_by_socket baseline_by_socket socket_name r =
     (case current_by_socket socket_name of
        None \<Rightarrow>
          Inr (add_difference r (''CPU socket '' @ socket_name @ '' missing in current system'') ''FAIL'')
      | Some current_cpu \<Rightarrow>
          (case baseline_by_socket socket_name of
             None \<Rightarrow>
               Inr (add_difference r (''Extra CPU socket '' @ socket_name @ '' in current system'')
                      ''WARNING'')
           | Some baseline_cpu \<Rightarrow>
               (case compare_cores (cpu_cores current_cpu) (cpu_cores baseline_cpu)
                       (compare_model socket_name current_cpu baseline_cpu r) of
                  Inl e \<Rightarrow> Inl e
                | Inr r' \<Rightarrow> Inr (compare_threads socket_name current_cpu baseline_cpu r'))))"

fun compare_sockets ::
  "(string \<rightharpoonup> processor) \<Rightarrow> (string \<rightharpoonup> processor) \<Rightarrow> string list \<Rightarrow> string diff_result
     \<Rightarrow> py_error + string diff_result" where
  "compare_sockets current_by_socket baseline_by_socket [] r = Inr r"
| "compare_sockets current_by_socket baseline_by_socket (socket_name # rest) r =
     (case compare_socket current_by_socket baseline_by_socket socket_name r of
        Inl e \<Rightarrow> Inl e
      | Inr r' \<Rightarrow> compare_sockets current_by_socket baseline_by_socket rest r')"

text \<open>\<^verbatim>\<open>HardwareDiff.compare_processors\<close>; \<open>order\<close> is the iteration order of the set of
  socket names of both sides.\<close>

definition processor_keys :: "processor list \<Rightarrow> processor list \<Rightarrow> string set" where
  "processor_keys current baseline = cpu_socket ` set baseline \<union> cpu_socket ` set current"

definition compare_processors ::
  "string list \<Rightarrow> processor list \<Rightarrow> processor list \<Rightarrow> py_error + string diff_result" where
  "compare_processors order current baseline =
     (let r0 = \<lparr>status = ''PASS'', differences = []\<rparr>;
          r1 = (if length current \<noteq> length baseline
                then add_difference r0
                       (''CPU count mismatch: current='' @ str_nat (length current)
                          @ '', baseline='' @ str_nat (length baseline)) ''FAIL''
                else r0)
      in compare_sockets (dict_by cpu_socket current) (dict_by cpu_socket baseline) order r1)"

subsection \<open>Memory\<close>

text \<open>A memory module record.  The slot name keys the record and is taken as present;
  \<^verbatim>\<open>size\<close> and \<^verbatim>\<open>populated\<close> are read with \<^verbatim>\<open>get\<close>, a missing \<^verbatim>\<open>populated\<close>
  counting as \<^verbatim>\<open>False\<close> and a missing \<^verbatim>\<open>size\<close> as the empty text.\<close>

record memory_module =
  dimm_slot :: string
  dimm_size :: "string option"
  dimm_populated :: "bool option"

definition is_populated :: "memory_module \<Rightarrow> bool" where
  "is_populated dimm = (case dimm_populated dimm of None \<Rightarrow> False | Some b \<Rightarrow> b)"

text \<open>\<^verbatim>\<open>re.findall(r'\d+', s)[0]\<close>, empty when the text has no digit.\<close>

definition first_number :: "string \<Rightarrow> string" where
  "first_number s = takeWhile is_digit (dropWhile (\<lambda>c. \<not> is_digit c) s)"

text \<open>The local function \<^verbatim>\<open>parse_memory_size\<close>: a \<^verbatim>\<open>ValueError\<close> of \<^verbatim>\<open>int\<close> is caught
  and gives 0.\<close>

definition parse_memory_size :: "string \<Rightarrow> int" where
  "parse_memory_size size_str =
     (if size_str = [] \<or> size_str = ''No Module Installed'' then 0
      else
        (let s = upper (strip size_str) in
         case (if endswith s '' GB'' then py_int (remove_all '' GB'' s)
               else if endswith s ''GB'' then py_int (remove_all ''GB'' s)
               else if endswith s '' MB'' then
                 map_option (\<lambda>mb_value. mb_value div 1024) (py_int (remove_all '' MB'' s))
               else if endswith s ''MB'' then
                 map_option (\<lambda>mb_value. mb_value div 1024) (py_int (remove_all ''MB'' s))
               else if isdigit s then py_int s
               else (case first_number s of [] \<Rightarrow> Some 0 | c # cs \<Rightarrow> py_int (c # cs)))
         of None \<Rightarrow> 0 | Some v \<Rightarrow> v))"

text \<open>The two counting loops: the number of populated modules and the sum of their
  sizes.\<close>

definition populated_count :: "memory_module list \<Rightarrow> nat" where
  "populated_count dimms = length (filter is_populated dimms)"

definition total_memory_gb :: "memory_module list \<Rightarrow> int" where
  "total_memory_gb dimms =
     sum_list (map (\<lambda>dimm. parse_memory_size (get_or (dimm_size dimm) [])) (filter is_populated dimms))"

text \<open>A memory finding is a dictionary with a type, a severity and, for a slot finding,
  the slot; its \<^verbatim>\<open>description\<close> is a message made from the same data and is left out.\<close>

record mem_difference =
  md_type :: string
  md_slot :: "string option"
  md_severity :: string

record memory_result = "mem_difference diff_result" +
  memory_slots_populated_current :: nat
  memory_slots_populated_baseline :: nat
  total_memory_current_gb :: int
  total_memory_baseline_gb :: int

text \<open>\<^verbatim>\<open>d.get(slot, {}).get('populated', False)\<close>\<close>

definition slot_populated :: "(string \<rightharpoonup> memory_module) \<Rightarrow> string \<Rightarrow> bool" where
  "slot_populated slots slot = (case slots slot of None \<Rightarrow> False | Some dimm \<Rightarrow> is_populated dimm)"

text \<open>The body of the loop over \<^verbatim>\<open>sorted(all_slots)\<close>.\<close>

definition compare_slot ::
  "(string \<rightharpoonup> memory_module) \<Rightarrow> (string \<rightharpoonup> memory_module) \<Rightarrow> string \<Rightarrow> memory_result
     \<Rightarrow> memory_result" where
  "compare_slot current_slots baseline_slots slot r =
     (let current_populated = slot_populated current_slots slot;
          baseline_populated = slot_populated baseline_slots slot
      in if current_populated = baseline_populated then r
         else add_difference r
                \<lparr>md_type = ''slot_population_change'', md_slot = Some slot, md_severity = ''minor''\<rparr>
                ''WARNING'')"

text \<open>\<^verbatim>\<open>sorted(set(a) | set(b))\<close> for two lists of keys\<close>

definition sorted_union :: "string list \<Rightarrow> string list \<Rightarrow> string list" where
  "sorted_union a b = sort (remdups (a @ b))"

text \<open>\<^verbatim>\<open>HardwareDiff.compare_memory\<close>\<close>

definition compare_memory :: "memory_module list \<Rightarrow> memory_module list \<Rightarrow> memory_result" where
  "compare_memory current baseline =
     (let r0 = \<lparr>status = ''PASS'', differences = [],
                memory_slots_populated_current = populated_count current,
                memory_slots_populated_baseline = populated_count baseline,
                total_memory_current_gb = total_memory_gb current,
                total_memory_baseline_gb = total_memory_gb baseline\<rparr>;
          r1 = (if memory_slots_populated_current r0 \<noteq> memory_slots_populated_baseline r0
                then add_difference r0
                       \<lparr>md_type = ''slot_count_mismatch'', md_slot = None, md_severity = ''warning''\<rparr>
                       ''WARNING''
                else r0);
          r2 = (if total_memory_current_gb r1 \<noteq> total_memory_baseline_gb r1
                then add_difference r1
                       \<lparr>md_type = ''total_memory_mismatch'', md_slot = None, md_severity = ''major''\<rparr>
                       ''FAIL''
                else r1)
      in fold (compare_slot (dict_by dimm_slot current) (dict_by dimm_slot baseline))
           (sorted_union (map dimm_slot current) (map dimm_slot baseline)) r2)"

subsection \<open>Ordered dictionaries\<close>

text \<open>A dictionary that is iterated keeps its keys in the order of their first
  insertion; assigning to a key that is there replaces the value in place.
  \<^verbatim>\<open>{key(x): x for x in xs}\<close> is \<open>odict_by key xs\<close>.\<close>

definition odict_by :: "('a \<Rightarrow> string) \<Rightarrow> 'a list \<Rightarrow> (string \<times> 'a) list" where
  "odict_by key xs = fold (\<lambda>x d. AList.update (key x) x d) xs []"

text \<open>\<^verbatim>\<open>if k not in d: d[k] = []\<close> followed by \<^verbatim>\<open>d[k].append(v)\<close>\<close>

definition group_add :: "string \<Rightarrow> 'a \<Rightarrow> (string \<times> 'a list) list \<Rightarrow> (string \<times> 'a list) list" where
  "group_add k v d =
     (case map_of d k of None \<Rightarrow> d @ [(k, [v])] | Some vs \<Rightarrow> AList.update k (vs @ [v]) d)"

definition group_by :: "('a \<Rightarrow> string) \<Rightarrow> 'a list \<Rightarrow> (string \<times> 'a list) list" where
  "group_by key xs = fold (\<lambda>x d. group_add (key x) x d) xs []"

text \<open>\<^verbatim>\<open>len(d.get(k, []))\<close>\<close>

definition group_count :: "(string \<times> 'a list) list \<Rightarrow> string \<Rightarrow> nat" where
  "group_count d k = (case map_of d k of None \<Rightarrow> 0 | Some vs \<Rightarrow> length vs)"

subsection \<open>PCI devices\<close>

text \<open>A PCI device record, with the keys the comparator reads: \<^verbatim>\<open>bdf\<close> (by subscript),
  \<^verbatim>\<open>description\<close> and \<^verbatim>\<open>class\<close> (by \<^verbatim>\<open>get\<close>).\<close>

record pci_device =
  pci_bdf :: string
  pci_description :: "string option"
  pci_class :: "string option"

definition critical_classes :: "string list" where
  "critical_classes =
     [''Host bridge'', ''PCI bridge'', ''ISA bridge'', ''Ethernet controller'',
      ''USB controller'', ''SATA controller'', ''System peripheral'']"

definition clean_device_class :: "string \<Rightarrow> string" where
  "clean_device_class device_class =
     (if device_class = [] then ''Unknown'' else strip (split_first '' ['' device_class))"

definition is_critical_pci :: "pci_device \<Rightarrow> bool" where
  "is_critical_pci dev = any_in critical_classes (clean_device_class (get_or (pci_class dev) []))"

definition critical_devices :: "(string \<times> pci_device) list \<Rightarrow> (string \<times> pci_device) list" where
  "critical_devices by_bdf = filter (\<lambda>(bdf, dev). is_critical_pci dev) by_bdf"

definition devices_by_class :: "(string \<times> pci_device) list \<Rightarrow> (string \<times> pci_device list) list" where
  "devices_by_class critical =
     group_by (\<lambda>dev. clean_device_class (get_or (pci_class dev) ''Unknown'')) (map snd critical)"

text \<open>The body of the loop over the classes of the baseline.\<close>

definition check_class ::
  "(string \<times> pci_device list) list \<Rightarrow> string \<times> pci_device list \<Rightarrow> string diff_result
     \<Rightarrow> string diff_result" where
  "check_class current_by_class entry r =
     (let dev_class = fst entry;
          baseline_count = length (snd entry);
          current_count = group_count current_by_class dev_class
      in if baseline_count \<noteq> current_count
         then add_difference r
                (dev_class @ '': expected '' @ str_nat baseline_count @ '', found ''
                   @ str_nat current_count) ''FAIL''
         else r)"

text \<open>The body of the loop over the classes of the current snapshot.\<close>

definition check_new_class ::
  "(string \<times> pci_device list) list \<Rightarrow> string \<times> pci_device list \<Rightarrow> string diff_result
     \<Rightarrow> string diff_result" where
  "check_new_class baseline_by_class entry r =
     (if map_of baseline_by_class (fst entry) = None
      then add_difference r (''New device class detected: '' @ fst entry) ''WARNING''
      else r)"

text \<open>The body of the loop over the addresses of the critical devices.\<close>

definition compare_bdf ::
  "(string \<times> pci_device) list \<Rightarrow> (string \<times> pci_device) list \<Rightarrow> string \<Rightarrow> string diff_result
     \<Rightarrow> string diff_result" where
  "compare_bdf current_by_bdf baseline_by_bdf bdf r =
     (case map_of current_by_bdf bdf of
        None \<Rightarrow> add_difference r (''Critical device '' @ bdf @ '' missing'') ''FAIL''
      | Some current_dev \<Rightarrow>
          (case map_of baseline_by_bdf bdf of
             None \<Rightarrow> r
           | Some baseline_dev \<Rightarrow>
               if pci_description current_dev \<noteq> pci_description baseline_dev
                  \<and> any_in [''Ethernet controller'', ''USB controller'']
                       (clean_device_class (get_or (pci_class baseline_dev) []))
               then add_difference r
                      (''Critical device '' @ bdf @ '' description changed: ''
                         @ str_opt (pci_description current_dev) @ '' vs ''
                         @ str_opt (pci_description baseline_dev)) ''WARNING''
               else r))"

definition pci_keys :: "pci_device list \<Rightarrow> pci_device list \<Rightarrow> string set" where
  "pci_keys current baseline =
     fst ` set (critical_devices (odict_by pci_bdf baseline))
     \<union> fst ` set (critical_devices (odict_by pci_bdf current))"

text \<open>\<^verbatim>\<open>HardwareDiff.compare_pci_devices\<close>; \<open>order\<close> is the iteration order of the set of
  the addresses of the critical devices of both sides.\<close>

definition compare_pci_devices ::
  "string list \<Rightarrow> pci_device list \<Rightarrow> pci_device list \<Rightarrow> string diff_result" where
  "compare_pci_devices order current baseline =
     (let baseline_by_bdf = odict_by pci_bdf baseline;
          current_by_bdf = odict_by pci_bdf current;
          baseline_critical = critical_devices baseline_by_bdf;
          current_critical = critical_devices current_by_bdf;
          baseline_by_class = devices_by_class baseline_critical;
          current_by_class = devices_by_class current_critical;
          r0 = \<lparr>status = ''PASS'', differences = []\<rparr>;
          r1 = fold (check_class current_by_class) baseline_by_class r0;
          r2 = fold (check_new_class baseline_by_class) current_by_class r1
      in fold (compare_bdf current_by_bdf baseline_by_bdf) order r2)"

subsection \<open>USB devices\<close>

text \<open>A USB device record, with the keys the comparator reads by \<^verbatim>\<open>get\<close>:
  \<^verbatim>\<open>vid_pid\<close>, \<^verbatim>\<open>description\<close> and \<^verbatim>\<open>vendor\<close>; the bus and device numbers travel with
  the record.\<close>

record usb_device =
  usb_bus :: string
  usb_device_no :: string
  usb_vid_pid :: "string option"
  usb_description :: "string option"
  usb_vendor :: "string option"

definition IGNORABLE_DEVICES :: "string list" where
  "IGNORABLE_DEVICES =
     [''0557:8021'', ''046b:ff01'', ''046b:ff20'', ''046b:ff31'', ''046b:ff10'', ''046b:ffb0'',
      ''0557:223a'']"

definition is_critical_usb :: "usb_device \<Rightarrow> bool" where
  "is_critical_usb device =
     (let description = lower (get_or (usb_description device) []);
          vendor = lower (get_or (usb_vendor device) [])
      in if any_in [''hub'', ''root hub'', ''host controller'', ''xhci'', ''ehci'', ''ohci'', ''uhci'']
              description then True
         else if any_in [''keyboard'', ''mouse'', ''management'', ''controller''] description then True
         else if any_in [''intel'', ''amd'', ''via'', ''nvidia''] vendor then True
         else False)"

definition hubs_by_vid_pid :: "usb_device list \<Rightarrow> (string \<times> usb_device list) list" where
  "hubs_by_vid_pid critical = group_by (\<lambda>dev. get_or (usb_vid_pid dev) []) critical"

text \<open>\<^verbatim>\<open>d[vid_pid][0].get('description', vid_pid)\<close> when the baseline has the key, else
  \<^verbatim>\<open>'Unknown'\<close>.\<close>

definition baseline_description :: "(string \<times> usb_device list) list \<Rightarrow> string \<Rightarrow> string" where
  "baseline_description baseline_hubs vid_pid =
     (case map_of baseline_hubs vid_pid of
        Some (dev # devs) \<Rightarrow> get_or (usb_description dev) vid_pid
      | _ \<Rightarrow> ''Unknown'')"

record usb_result = "string diff_result" +
  ignored_devices :: "usb_device list option"
  ignored_devices_count :: nat

text \<open>The body of the loop over the identifiers of the critical devices.\<close>

definition check_vid_pid ::
  "(string \<times> usb_device list) list \<Rightarrow> (string \<times> usb_device list) list \<Rightarrow> string
     \<Rightarrow> usb_result \<Rightarrow> usb_result" where
  "check_vid_pid current_hubs baseline_hubs vid_pid r =
     (let baseline_count = group_count baseline_hubs vid_pid;
          current_count = group_count current_hubs vid_pid
      in if baseline_count \<noteq> current_count then
           (let issue = ''USB device '' @ vid_pid @ '' ('' @ baseline_description baseline_hubs vid_pid
                          @ ''): expected '' @ str_nat baseline_count @ '', found ''
                          @ str_nat current_count;
                r' = r\<lparr>differences := differences r @ [issue]\<rparr>
            in if baseline_count > current_count
               then r'\<lparr>status := escalate_status (status r') ''FAIL''\<rparr>
               else if current_count > baseline_count
               then r'\<lparr>status := escalate_status (status r') ''WARNING''\<rparr>
               else r')
         else r)"

definition usb_keys :: "usb_device list \<Rightarrow> usb_device list \<Rightarrow> string set" where
  "usb_keys current baseline =
     fst ` set (hubs_by_vid_pid (filter is_critical_usb baseline))
     \<union> fst ` set (hubs_by_vid_pid (filter is_critical_usb current))"

text \<open>\<^verbatim>\<open>HardwareDiff.compare_usb_devices\<close>; \<open>order\<close> is the iteration order of the set of
  the identifiers of the critical devices of both sides.\<close>

definition compare_usb_devices ::
  "string list \<Rightarrow> usb_device list \<Rightarrow> usb_device list \<Rightarrow> usb_result" where
  "compare_usb_devices order current baseline =
     (let baseline_critical = filter is_critical_usb baseline;
          current_critical = filter is_critical_usb current;
          baseline_hubs = hubs_by_vid_pid baseline_critical;
          current_hubs = hubs_by_vid_pid current_critical;
          r0 = \<lparr>status = ''PASS'', differences = [], ignored_devices = None,
                ignored_devices_count = 0\<rparr>;
          r1 = fold (check_vid_pid current_hubs baseline_hubs) order r0;
          ignored =
            filter (\<lambda>device. case usb_vid_pid device of None \<Rightarrow> False
                               | Some v \<Rightarrow> v \<in> set IGNORABLE_DEVICES) current
      in if ignored \<noteq> []
         then r1\<lparr>ignored_devices := Some ignored, ignored_devices_count := length ignored\<rparr>
         else r1)"

subsection \<open>Storage devices\<close>

text \<open>A storage device record.  The collectors of the repository write the keys
  \<^verbatim>\<open>name\<close>, \<^verbatim>\<open>model\<close> and \<^verbatim>\<open>size\<close>; the comparator reads \<^verbatim>\<open>device\<close>, \<^verbatim>\<open>model\<close>,
  \<^verbatim>\<open>transport\<close> and \<^verbatim>\<open>size\<close>, each with \<^verbatim>\<open>get\<close>.\<close>

record storage_device =
  stor_name :: string
  stor_device :: "string option"
  stor_model :: "string option"
  stor_transport :: "string option"
  stor_size :: "string option"

definition filter_virtual_devices :: "storage_device list \<Rightarrow> storage_device list" where
  "filter_virtual_devices devices =
     filter (\<lambda>device. let model = lower (get_or (stor_model device) [])
                      in \<not> contains ''virtual hdisk'' model \<and> \<not> contains ''ami virtual'' model)
       devices"

text \<open>The bucket \<^verbatim>\<open>group_by_type\<close> chooses for one device.  The last test of the chain
  converts the size with \<^verbatim>\<open>float\<close> and compares it with 100, in binary floating point;
  the argument \<open>over_100\<close> stands for that test: it tells whether the text converts and the
  number exceeds 100.\<close>

definition storage_type :: "(string \<Rightarrow> bool) \<Rightarrow> storage_device \<Rightarrow> string" where
  "storage_type over_100 device =
     (let device_name = lower (get_or (stor_device device) []);
          model = lower (get_or (stor_model device) []);
          transport = lower (get_or (stor_transport device) [])
      in if startswith device_name ''nvme'' \<or> contains ''nvme'' model then ''nvme''
         else if contains ''sas'' model \<or> contains ''sas'' transport
                 \<or> (any_in [''seagate'', ''hitachi'', ''toshiba''] model \<and> contains ''sas'' model)
         then ''sas''
         else if any_in [''raid'', ''logical'', ''virtual'', ''megaraid'', ''adaptec''] model
         then ''raid''
         else if (startswith device_name ''sd'' \<and> any_in [''sata'', ''ata'', ''ssd''] model)
                 \<or> contains ''sata'' transport
         then ''sata''
         else if startswith device_name ''mmcblk'' \<or> contains ''mmc'' model then ''mmc''
         else if contains ''usb'' transport \<or> contains ''usb'' model then ''usb''
         else if startswith device_name ''sd'' then
           (let size_str = get_or (stor_size device) ''0''
            in if contains ''GB'' size_str then
                 (if over_100 (strip (remove_all ''GB'' size_str)) \<and> \<not> contains ''ssd'' model
                  then ''sas'' else ''sata'')
               else ''sata'')
         else ''other'')"

definition storage_types :: "string list" where
  "storage_types = [''nvme'', ''sata'', ''sas'', ''mmc'', ''usb'', ''raid'', ''other'']"

text \<open>\<^verbatim>\<open>groups[t].append(device)\<close>\<close>

definition bucket_add ::
  "string \<Rightarrow> 'a \<Rightarrow> (string \<times> 'a list) list \<Rightarrow> (string \<times> 'a list) list" where
  "bucket_add t x groups = map (\<lambda>(k, xs). if k = t then (k, xs @ [x]) else (k, xs)) groups"

definition group_by_type ::
  "(string \<Rightarrow> bool) \<Rightarrow> storage_device list \<Rightarrow> (string \<times> storage_device list) list" where
  "group_by_type over_100 devices =
     fold (\<lambda>device groups. bucket_add (storage_type over_100 device) device groups) devices
       (map (\<lambda>t. (t, [])) storage_types)"

text \<open>\<^verbatim>\<open>d.get(storage_type, [])\<close>\<close>

definition bucket :: "(string \<times> 'a list) list \<Rightarrow> string \<Rightarrow> 'a list" where
  "bucket groups t = (case map_of groups t of None \<Rightarrow> [] | Some xs \<Rightarrow> xs)"

text \<open>The loop over the positions \<open>i\<close>, \<open>i + 1\<close>, ... of one bucket: the two lists are
  walked together and the longer one alone past the end of the shorter.\<close>

fun compare_positions ::
  "string \<Rightarrow> nat \<Rightarrow> storage_device list \<Rightarrow> storage_device list \<Rightarrow> string list" where
  "compare_positions t i [] [] = []"
| "compare_positions t i [] (base_dev # bs) =
     (upper t @ '' '' @ str_nat (i + 1) @ '': missing in current (baseline has ''
        @ [CHR 0x27] @ get_or (stor_model base_dev) ''Unknown'' @ [CHR 0x27] @ '')'')
     # compare_positions t (i + 1) [] bs"
| "compare_positions t i (cur_dev # cs) [] =
     (upper t @ '' '' @ str_nat (i + 1) @ '': extra in current (''
        @ [CHR 0x27] @ get_or (stor_model cur_dev) ''Unknown'' @ [CHR 0x27] @ '')'')
     # compare_positions t (i + 1) cs []"
| "compare_positions t i (cur_dev # cs) (base_dev # bs) =
     (let curr_model = get_or (stor_model cur_dev) ''Unknown'';
          base_model = get_or (stor_model base_dev) ''Unknown''
      in (if curr_model \<noteq> base_model
          then [upper t @ '' '' @ str_nat (i + 1) @ '' model mismatch: current=''
                  @ [CHR 0x27] @ curr_model @ [CHR 0x27] @ '', baseline=''
                  @ [CHR 0x27] @ base_model @ [CHR 0x27]]
          else [])
         @ compare_positions t (i + 1) cs bs)"

text \<open>The body of the loop over the type names.\<close>

definition compare_type ::
  "(string \<times> storage_device list) list \<Rightarrow> (string \<times> storage_device list) list \<Rightarrow> string
     \<Rightarrow> string list" where
  "compare_type current_by_type baseline_by_type t =
     (let current_devices = bucket current_by_type t;
          baseline_devices = bucket baseline_by_type t
      in (if length current_devices \<noteq> length baseline_devices
          then [upper t @ '' count mismatch: current='' @ str_nat (length current_devices)
                  @ '', baseline='' @ str_nat (length baseline_devices)]
          else [])
         @ compare_positions t 0 current_devices baseline_devices)"

record storage_result = "string diff_result" +
  current_count :: nat
  baseline_count :: nat
  current_by_type :: "(string \<times> nat) list"
  baseline_by_type :: "(string \<times> nat) list"
  virtual_devices_filtered :: "nat \<times> nat"

text \<open>\<^verbatim>\<open>HardwareDiff.compare_storage_devices\<close>; \<open>order\<close> is the iteration order of the set of
  the seven type names.\<close>

definition compare_storage_devices ::
  "(string \<Rightarrow> bool) \<Rightarrow> string list \<Rightarrow> storage_device list \<Rightarrow> storage_device list
     \<Rightarrow> storage_result" where
  "compare_storage_devices over_100 order current baseline =
     (let current_filtered = filter_virtual_devices current;
          baseline_filtered = filter_virtual_devices baseline;
          current_groups = group_by_type over_100 current_filtered;
          baseline_groups = group_by_type over_100 baseline_filtered;
          diffs = concat (map (compare_type current_groups baseline_groups) order)
      in \<lparr>status = (if diffs = [] then ''PASS'' else ''FAIL''),
          differences = diffs,
          current_count = length current_filtered,
          baseline_count = length baseline_filtered,
          current_by_type = map (\<lambda>(k, v). (k, length v)) current_groups,
          baseline_by_type = map (\<lambda>(k, v). (k, length v)) baseline_groups,
          virtual_devices_filtered =
            (length current - length current_filtered, length baseline - length baseline_filtered)\<rparr>)"

subsection \<open>Riser cards\<close>

text \<open>A riser record; every key is read with \<^verbatim>\<open>get\<close>.  The sub-slots are a list of
  which only the length is used.\<close>

record pcie_slot =
  slot_id :: string
  slot_speed :: string
  slot_width :: string
  slot_status :: string

record riser_card =
  riser_slot :: "string option"
  riser_populated :: "bool option"
  fru_product_name :: "string option"
  fru_manufacturer :: "string option"
  fru_part_number :: "string option"
  fru_serial_number :: "string option"
  pcie_slots :: "pcie_slot list option"

definition riser_is_populated :: "riser_card \<Rightarrow> bool" where
  "riser_is_populated riser = (case riser_populated riser of None \<Rightarrow> False | Some b \<Rightarrow> b)"

definition riser_key :: "riser_card \<Rightarrow> string" where
  "riser_key riser = get_or (riser_slot riser) []"

definition pcie_slot_count :: "riser_card \<Rightarrow> nat" where
  "pcie_slot_count riser = (case pcie_slots riser of None \<Rightarrow> 0 | Some slots \<Rightarrow> length slots)"

text \<open>The state of the loop over the slots: the findings and the two counters.\<close>

record riser_state =
  rs_differences :: "string list"
  populated_current :: nat
  populated_baseline :: nat

definition populated_text :: "bool \<Rightarrow> string" where
  "populated_text b = (if b then ''populated'' else ''empty'')"

definition quoted :: "string \<Rightarrow> string" where
  "quoted s = [CHR 0x27] @ s @ [CHR 0x27]"

text \<open>The checks of the FRU data of a slot that is populated on both sides.\<close>

definition fru_differences :: "string \<Rightarrow> riser_card \<Rightarrow> riser_card \<Rightarrow> string list" where
  "fru_differences slot current_riser baseline_riser =
     (let curr_product = get_or (fru_product_name current_riser) [];
          base_product = get_or (fru_product_name baseline_riser) [];
          curr_manufacturer = get_or (fru_manufacturer current_riser) [];
          base_manufacturer = get_or (fru_manufacturer baseline_riser) [];
          curr_part = get_or (fru_part_number current_riser) [];
          base_part = get_or (fru_part_number baseline_riser) [];
          curr_serial = get_or (fru_serial_number current_riser) [];
          curr_pcie = pcie_slot_count current_riser;
          base_pcie = pcie_slot_count baseline_riser
      in (if curr_product \<noteq> base_product
          then [''Slot '' @ slot @ '': FRU Product Name mismatch - current='' @ quoted curr_product
                  @ '', baseline='' @ quoted base_product] else [])
       @ (if curr_manufacturer \<noteq> base_manufacturer
          then [''Slot '' @ slot @ '': FRU Manufacturer mismatch - current=''
                  @ quoted curr_manufacturer @ '', baseline='' @ quoted base_manufacturer] else [])
       @ (if curr_part \<noteq> base_part
          then [''Slot '' @ slot @ '': FRU Part Number mismatch - current='' @ quoted curr_part
                  @ '', baseline='' @ quoted base_part] else [])
       @ (if curr_serial = [] \<or> curr_serial = ''Required''
          then [''Slot '' @ slot @ '': FRU Serial Number missing or invalid - current=''
                  @ quoted curr_serial] else [])
       @ (if curr_pcie \<noteq> base_pcie
          then [''Slot '' @ slot @ '': PCIe slots count mismatch - current='' @ str_nat curr_pcie
                  @ '', baseline='' @ str_nat base_pcie] else []))"

text \<open>The body of the loop over \<^verbatim>\<open>sorted(all_slots)\<close>.\<close>

definition compare_riser_slot ::
  "(string \<rightharpoonup> riser_card) \<Rightarrow> (string \<rightharpoonup> riser_card) \<Rightarrow> string \<Rightarrow> riser_state \<Rightarrow> riser_state" where
  "compare_riser_slot current_by_slot baseline_by_slot slot st =
     (case current_by_slot slot of
        None \<Rightarrow>
          st\<lparr>rs_differences := rs_differences st
               @ [''Slot '' @ slot @ '': Missing in current configuration'']\<rparr>
      | Some current_riser \<Rightarrow>
          (case baseline_by_slot slot of
             None \<Rightarrow>
               st\<lparr>rs_differences := rs_differences st
                    @ [''Slot '' @ slot @ '': Extra riser found (not in baseline)'']\<rparr>
           | Some baseline_riser \<Rightarrow>
               (let curr_populated = riser_is_populated current_riser;
                    base_populated = riser_is_populated baseline_riser;
                    st1 = st\<lparr>populated_current :=
                                populated_current st + (if curr_populated then 1 else 0),
                              populated_baseline :=
                                populated_baseline st + (if base_populated then 1 else 0)\<rparr>
                in if curr_populated \<noteq> base_populated
                   then st1\<lparr>rs_differences := rs_differences st1
                          @ [''Slot '' @ slot @ '': Population status mismatch - current=''
                               @ populated_text curr_populated @ '', baseline=''
                               @ populated_text base_populated]\<rparr>
                   else if curr_populated \<and> base_populated
                   then st1\<lparr>rs_differences := rs_differences st1
                          @ fru_differences slot current_riser baseline_riser\<rparr>
                   else st1)))"

definition critical_keywords :: "string list" where
  "critical_keywords =
     [''missing in current'', ''fru serial number missing'', ''populated risers mismatch'',
      ''population status mismatch'']"

record riser_result = "string diff_result" +
  current_populated :: nat
  baseline_populated :: nat
  current_slots :: nat
  baseline_slots :: nat
  critical_differences :: "string list"

text \<open>\<^verbatim>\<open>HardwareDiff.compare_riser_cards\<close>\<close>

definition compare_riser_cards :: "riser_card list \<Rightarrow> riser_card list \<Rightarrow> riser_result" where
  "compare_riser_cards current baseline =
     (let current_by_slot = dict_by riser_key current;
          baseline_by_slot = dict_by riser_key baseline;
          st = fold (compare_riser_slot current_by_slot baseline_by_slot)
                 (sorted_union (map riser_key current) (map riser_key baseline))
                 \<lparr>rs_differences = [], populated_current = 0, populated_baseline = 0\<rparr>;
          diffs = rs_differences st
                  @ (if populated_current st \<noteq> populated_baseline st
                     then [''Total populated risers mismatch: current=''
                             @ str_nat (populated_current st) @ '', baseline=''
                             @ str_nat (populated_baseline st)]
                     else []);
          critical = filter (\<lambda>d. any_in critical_keywords (lower d)) diffs
      in \<lparr>status = (if critical \<noteq> [] then ''FAIL'' else if diffs \<noteq> [] then ''WARNING'' else ''PASS''),
          differences = diffs,
          current_populated = populated_current st,
          baseline_populated = populated_baseline st,
          current_slots = length current,
          baseline_slots = length baseline,
          critical_differences = critical\<rparr>)"

text \<open>A serial number that the serial check accepts.\<close>

definition serial_present :: "riser_card \<Rightarrow> bool" where
  "serial_present riser =
     (get_or (fru_serial_number riser) [] \<noteq> [] \<and> get_or (fru_serial_number riser) [] \<noteq> ''Required'')"

text \<open>The records that the comparison looks at: for each slot name the last record of the
  list.\<close>

definition serials_present :: "riser_card list \<Rightarrow> bool" where
  "serials_present risers =
     list_all (\<lambda>riser. dict_by riser_key risers (riser_key riser) = Some riser
                  \<and> riser_is_populated riser \<longrightarrow> serial_present riser) risers"

subsection \<open>Sensor validation\<close>

text \<open>A reading as \<^verbatim>\<open>collect_sensor_data\<close> stores it, and the dictionary of the readings
  by sensor name.\<close>

record sensor_reading =
  sensor_value :: string
  sensor_unit :: string
  sensor_status :: string

type_synonym sensors = "(string \<times> sensor_reading) list"

text \<open>A violation is a dictionary with the sensor, a type and, for a status violation,
  the status read and the statuses expected; its message is a text made from the same
  data and is left out.\<close>

record violation =
  v_sensor :: string
  v_type :: string
  v_actual :: "string option"
  v_expected :: "string list option"

text \<open>The result of one category: the dictionary of
  \<^verbatim>\<open>_create_validation_result_dict\<close>; the key \<^verbatim>\<open>error\<close> is present in the stub that
  replaces the result of a category that raised.\<close>

record category_result =
  cat_status :: string
  cat_error :: "string option"
  actually_checked :: nat
  passed_sensors :: nat
  warning_sensors :: nat
  failed_sensors :: nat
  missing_sensors :: nat
  skipped_sensors :: nat
  violations :: "violation list"

definition create_validation_result_dict :: category_result where
  "create_validation_result_dict =
     \<lparr>cat_status = ''PASS'', cat_error = None, actually_checked = 0, passed_sensors = 0,
      warning_sensors = 0, failed_sensors = 0, missing_sensors = 0, skipped_sensors = 0,
      violations = []\<rparr>"

text \<open>The section \<^verbatim>\<open>discrete_sensors\<close> of the limits.\<close>

record discrete_config =
  acceptable_statuses :: "(string \<times> string list) list"
  critical_if_different :: "string list"

text \<open>The body of the loop of \<^verbatim>\<open>validate_discrete_sensors\<close>.\<close>

definition check_discrete ::
  "sensors \<Rightarrow> string list \<Rightarrow> string \<times> string list \<Rightarrow> category_result \<Rightarrow> category_result" where
  "check_discrete sensors critical_sensors entry r =
     (let sensor_name = fst entry; expected_statuses = snd entry
      in case map_of sensors sensor_name of
           None \<Rightarrow>
             r\<lparr>violations := violations r
                  @ [\<lparr>v_sensor = sensor_name, v_type = ''MISSING'', v_actual = None,
                      v_expected = None\<rparr>]\<rparr>
         | Some sensor_data \<Rightarrow>
             (let r1 = r\<lparr>actually_checked := actually_checked r + 1\<rparr>;
                  actual_status = sensor_status sensor_data
              in if actual_status \<in> set expected_statuses
                 then r1\<lparr>passed_sensors := passed_sensors r1 + 1\<rparr>
                 else if sensor_name \<in> set critical_sensors
                 then r1\<lparr>failed_sensors := failed_sensors r1 + 1,
                         violations := violations r1
                           @ [\<lparr>v_sensor = sensor_name, v_type = ''CRITICAL_STATUS'',
                               v_actual = Some actual_status,
                               v_expected = Some expected_statuses\<rparr>]\<rparr>
                 else r1\<lparr>warning_sensors := warning_sensors r1 + 1,
                         violations := violations r1
                           @ [\<lparr>v_sensor = sensor_name, v_type = ''WARNING_STATUS'',
                               v_actual = Some actual_status,
                               v_expected = Some expected_statuses\<rparr>]\<rparr>))"

text \<open>\<^verbatim>\<open>SensorValidator.validate_discrete_sensors\<close>, for the discrete section of the
  limits.\<close>

definition validate_discrete_sensors :: "discrete_config \<Rightarrow> sensors \<Rightarrow> category_result" where
  "validate_discrete_sensors discrete sensors =
     (let r = fold (check_discrete sensors (critical_if_different discrete))
                (acceptable_statuses discrete) create_validation_result_dict
      in if failed_sensors r > 0 then r\<lparr>cat_status := ''FAIL''\<rparr>
         else if warning_sensors r > 0 then r\<lparr>cat_status := ''WARNING''\<rparr>
         else r)"

subsection \<open>The validation report\<close>

text \<open>A validation function maps the readings to its result, or raises: \<open>Inl msg\<close> is an
  exception whose text is \<open>msg\<close>.\<close>

type_synonym validator = "sensors \<Rightarrow> string + category_result"

text \<open>The stub that stands for a category whose validation raised.\<close>

definition error_stub :: "string \<Rightarrow> category_result" where
  "error_stub category_error =
     \<lparr>cat_status = ''ERROR'', cat_error = Some category_error, actually_checked = 0,
      passed_sensors = 0, warning_sensors = 0, failed_sensors = 0, missing_sensors = 0,
      skipped_sensors = 0, violations = []\<rparr>"

text \<open>\<^verbatim>\<open>category_functions\<close>: the five categories, in the order they run.\<close>

definition category_functions ::
  "validator \<Rightarrow> validator \<Rightarrow> validator \<Rightarrow> validator \<Rightarrow> validator \<Rightarrow> (string \<times> validator) list" where
  "category_functions validate_voltage validate_temperature validate_fan validate_power
       validate_discrete =
     [(''voltages'', validate_voltage), (''temperatures'', validate_temperature),
      (''fans'', validate_fan), (''power'', validate_power), (''discrete'', validate_discrete)]"

text \<open>The body of the loop over the categories, with its \<^verbatim>\<open>try\<close>: the state is the
  dictionary of the results and the number of categories that returned.\<close>

definition run_category ::
  "sensors \<Rightarrow> string \<times> validator \<Rightarrow> (string \<times> category_result) list \<times> nat
     \<Rightarrow> (string \<times> category_result) list \<times> nat" where
  "run_category sensors entry st =
     (case snd entry sensors of
        Inr category_result \<Rightarrow> (AList.update (fst entry) category_result (fst st), snd st + 1)
      | Inl category_error \<Rightarrow> (AList.update (fst entry) (error_stub category_error) (fst st), snd st))"

record error_info =
  error_type :: string
  error_message :: string
  error_stage :: string

record validation_report =
  overall_status :: string
  total_sensors_available :: nat
  total_checked :: nat
  total_passed :: nat
  total_violations :: nat
  categories_checked :: nat
  category_results :: "(string \<times> category_result) list"
  raw_sensor_data :: sensors
  error_details :: "error_info option"

text \<open>\<^verbatim>\<open>SensorValidator.perform_full_validation\<close>.  \<open>collected\<close> is what
  \<^verbatim>\<open>collect_sensor_data\<close> gave: the readings, or the text of the exception it raised.  The
  five validation functions are arguments.  The limits are a mapping, as the limits
  document is a JSON object; the entries \<^verbatim>\<open>validation_info\<close> of the report are left
  out.\<close>

definition perform_full_validation ::
  "string + sensors \<Rightarrow> validator \<Rightarrow> validator \<Rightarrow> validator \<Rightarrow> validator \<Rightarrow> validator
     \<Rightarrow> validation_report" where
  "perform_full_validation collected validate_voltage validate_temperature validate_fan
       validate_power validate_discrete =
     (let validation_results =
            \<lparr>overall_status = ''ERROR'', total_sensors_available = 0, total_checked = 0,
             total_passed = 0, total_violations = 0, categories_checked = 0,
             category_results = [], raw_sensor_data = [], error_details = None\<rparr>
      in case collected of
           Inl sensor_error \<Rightarrow>
             validation_results
               \<lparr>error_details := Some \<lparr>error_type = ''SENSOR_COLLECTION_FAILED'',
                                        error_message = sensor_error,
                                        error_stage = ''collect_sensor_data''\<rparr>\<rparr>
         | Inr sensors \<Rightarrow>
             (let st = fold (run_category sensors)
                         (category_functions validate_voltage validate_temperature validate_fan
                            validate_power validate_discrete) ([], 0);
                  results = fst st;
                  all_statuses = map (\<lambda>(name, r). cat_status r) results
              in validation_results
                   \<lparr>total_sensors_available := length sensors,
                    raw_sensor_data := sensors,
                    category_results := results,
                    categories_checked := snd st,
                    overall_status :=
                      (if ''ERROR'' \<in> set all_statuses then ''ERROR''
                       else if ''FAIL'' \<in> set all_statuses then ''FAIL''
                       else if ''WARNING'' \<in> set all_statuses then ''WARNING''
                       else ''PASS''),
                    total_violations := sum_list (map (\<lambda>(name, r). length (violations r)) results),
                    total_checked := sum_list (map (\<lambda>(name, r). actually_checked r) results),
                    total_passed := sum_list (map (\<lambda>(name, r). passed_sensors r) results)\<rparr>))"

subsection \<open>Example records\<close>

text \<open>Concrete records and snapshots for the evaluations below.  Two processors and an
  Ethernet port:\<close>

definition cpu0 :: processor where
  "cpu0 = \<lparr>cpu_socket = ''CPU0'', cpu_model = Some ''Intel(R) Xeon(R) Gold 6330'',
           cpu_cores = Some (JInt 28), cpu_threads = Some (JInt 56)\<rparr>"

definition cpu1 :: processor where
  "cpu1 = \<lparr>cpu_socket = ''CPU1'', cpu_model = Some ''Intel(R) Xeon(R) Gold 6330'',
           cpu_cores = Some (JInt 28), cpu_threads = Some (JInt 56)\<rparr>"

definition ethernet_port :: "string \<Rightarrow> pci_device" where
  "ethernet_port bdf =
     \<lparr>pci_bdf = bdf, pci_description = Some ''Ethernet controller: Intel Corporation I350'',
      pci_class = Some ''Ethernet controller [0200]''\<rparr>"

text \<open>The memory scenario of the specification: four populated modules of 32 GB in the
  baseline (128 GiB), four populated modules in the current snapshot that total 96 GiB.  A
  second pair of snapshots differs in the number of populated modules only.\<close>

definition mk_dimm :: "string \<Rightarrow> string \<Rightarrow> bool \<Rightarrow> memory_module" where
  "mk_dimm slot sz pop = \<lparr>dimm_slot = slot, dimm_size = Some sz, dimm_populated = Some pop\<rparr>"

definition scenario_baseline :: "memory_module list" where
  "scenario_baseline =
     [mk_dimm ''DIMM_A1'' ''32 GB'' True, mk_dimm ''DIMM_B1'' ''32 GB'' True,
      mk_dimm ''DIMM_C1'' ''32 GB'' True, mk_dimm ''DIMM_D1'' ''32 GB'' True]"

definition scenario_current :: "memory_module list" where
  "scenario_current =
     [mk_dimm ''DIMM_A1'' ''32 GB'' True, mk_dimm ''DIMM_B1'' ''32 GB'' True,
      mk_dimm ''DIMM_C1'' ''16 GB'' True, mk_dimm ''DIMM_D1'' ''16 GB'' True]"

definition recount_baseline :: "memory_module list" where
  "recount_baseline =
     [mk_dimm ''DIMM_A1'' ''32 GB'' True, mk_dimm ''DIMM_B1'' ''32 GB'' True,
      mk_dimm ''DIMM_C1'' ''No Module Installed'' False]"

definition recount_current :: "memory_module list" where
  "recount_current =
     [mk_dimm ''DIMM_A1'' ''32 GB'' True, mk_dimm ''DIMM_B1'' ''16 GB'' True,
      mk_dimm ''DIMM_C1'' ''16 GB'' True]"

text \<open>The KVM hub of the ignore list, as \<^verbatim>\<open>lsusb\<close> reports it, and a root hub.\<close>

definition kvm_hub :: usb_device where
  "kvm_hub = \<lparr>usb_bus = ''001'', usb_device_no = ''003'', usb_vid_pid = Some ''0557:8021'',
              usb_description = Some ''ATEN International Co., Ltd Hub'', usb_vendor = None\<rparr>"

definition root_hub :: "string \<Rightarrow> string \<Rightarrow> usb_device" where
  "root_hub vid_pid description =
     \<lparr>usb_bus = ''001'', usb_device_no = ''001'', usb_vid_pid = Some vid_pid,
      usb_description = Some description, usb_vendor = None\<rparr>"

text \<open>Three drives as the collector \<^verbatim>\<open>get_storage_info\<close> records them: it writes the
  keys \<^verbatim>\<open>name\<close>, \<^verbatim>\<open>model\<close> and \<^verbatim>\<open>size\<close>.\<close>

definition nvme_drive :: storage_device where
  "nvme_drive = \<lparr>stor_name = ''nvme0n1'', stor_device = None,
                 stor_model = Some ''Samsung SSD 980 PRO 1TB'', stor_transport = None,
                 stor_size = Some ''931.5G''\<rparr>"

definition sata_drive :: storage_device where
  "sata_drive = \<lparr>stor_name = ''sda'', stor_device = None,
                 stor_model = Some ''INTEL SSDSC2KB480G8'', stor_transport = None,
                 stor_size = Some ''447.1G''\<rparr>"

definition emmc_drive :: storage_device where
  "emmc_drive = \<lparr>stor_name = ''mmcblk0'', stor_device = None, stor_model = None,
                 stor_transport = None, stor_size = Some ''29.1G''\<rparr>"

text \<open>The first riser of the baseline that \<^verbatim>\<open>create_baseline_config.get_riser_info\<close> writes
  when no board controller is configured.\<close>

definition baseline_riser_1 :: riser_card where
  "baseline_riser_1 =
     \<lparr>riser_slot = Some ''RISER_SLOT_1'', riser_populated = Some True,
      fru_product_name = Some ''RSMB-MS93-FS0-RISER-1'',
      fru_manufacturer = Some ''GIGA-BYTE TECHNOLOGY CO., LTD'',
      fru_part_number = Some ''25VH1-1A00-11NN'',
      fru_serial_number = Some ''Required'',
      pcie_slots = Some
        [\<lparr>slot_id = ''SLOT_1'', slot_speed = ''PCIe 4.0'', slot_width = ''x16'',
          slot_status = ''active''\<rparr>,
         \<lparr>slot_id = ''SLOT_2'', slot_speed = ''PCIe 4.0'', slot_width = ''x16'',
          slot_status = ''active''\<rparr>]\<rparr>"

text \<open>The limits and the reading of one power supply sensor.\<close>

definition psu_limits :: discrete_config where
  "psu_limits = \<lparr>acceptable_statuses = [(''PS1_Status'', [''0x0180''])],
                 critical_if_different = [''PS1_Status'']\<rparr>"

definition psu_readings :: sensors where
  "psu_readings =
     [(''PS1_Status'',
       \<lparr>sensor_value = ''0x0'', sensor_unit = ''discrete'', sensor_status = ''0x0180''\<rparr>)]"

section \<open>Properties\<close>

subsection \<open>Facts about escalation\<close>

lemma statuses_cases:
  "s \<in> set statuses \<longleftrightarrow>
     s = ''PASS'' \<or> s = ''WARNING'' \<or> s = ''FAIL'' \<or> s = ''ERROR'' \<or> s = ''UNKNOWN''"
  by (auto simp: statuses_def STATUS_PRIORITY_def)

lemma priority_simps [simp]:
  "priority ''PASS'' = 0" "priority ''WARNING'' = 1" "priority ''FAIL'' = 2"
  "priority ''ERROR'' = 3" "priority ''UNKNOWN'' = 4"
  by (simp_all add: priority_def STATUS_PRIORITY_def)

lemma priority_inj:
  "a \<in> set statuses \<Longrightarrow> b \<in> set statuses \<Longrightarrow> priority a = priority b \<Longrightarrow> a = b"
  unfolding statuses_cases by (elim disjE) simp_all

lemma escalate_status_max:
  "priority (escalate_status a b) = max (priority a) (priority b)"
  by (simp add: escalate_status_def Let_def)

lemma escalate_status_closed:
  "a \<in> set statuses \<Longrightarrow> b \<in> set statuses \<Longrightarrow> escalate_status a b \<in> set statuses"
  by (simp add: escalate_status_def Let_def)

lemma priority_unlisted:
  assumes "s \<notin> set statuses"
  shows "priority s = 0"
proof -
  have "map_of STATUS_PRIORITY s = None"
    using assms by (simp add: map_of_eq_None_iff statuses_def)
  then show ?thesis by (simp add: priority_def)
qed

text \<open>
  Claim C1.  For statuses \<open>a\<close>, \<open>b\<close>, \<open>c\<close> of the enumeration, the escalation of \<open>a\<close> and
  \<open>b\<close> is one of the two, its priority is not below either one's, escalation is commutative
  and associative, and escalating \<^verbatim>\<open>PASS\<close> with \<open>a\<close> gives \<open>a\<close>.
\<close>

theorem escalate_status_algebra:
  assumes "a \<in> set statuses" and "b \<in> set statuses" and "c \<in> set statuses"
  shows "(escalate_status a b = a \<or> escalate_status a b = b)
       \<and> priority a \<le> priority (escalate_status a b)
       \<and> priority b \<le> priority (escalate_status a b)
       \<and> escalate_status a b = escalate_status b a
       \<and> escalate_status (escalate_status a b) c = escalate_status a (escalate_status b c)
       \<and> escalate_status ''PASS'' a = a"
proof -
  have one: "escalate_status a b = a \<or> escalate_status a b = b"
    by (simp add: escalate_status_def Let_def)
  have comm: "escalate_status a b = escalate_status b a"
  proof (rule priority_inj)
    show "escalate_status a b \<in> set statuses" "escalate_status b a \<in> set statuses"
      using assms by (simp_all add: escalate_status_closed)
    show "priority (escalate_status a b) = priority (escalate_status b a)"
      by (simp add: escalate_status_max max.commute)
  qed
  have assoc: "escalate_status (escalate_status a b) c = escalate_status a (escalate_status b c)"
  proof (rule priority_inj)
    show "escalate_status (escalate_status a b) c \<in> set statuses"
      "escalate_status a (escalate_status b c) \<in> set statuses"
      using assms by (simp_all add: escalate_status_closed)
    show "priority (escalate_status (escalate_status a b) c)
        = priority (escalate_status a (escalate_status b c))"
      by (simp add: escalate_status_max max.assoc)
  qed
  have unit: "escalate_status ''PASS'' a = a"
  proof (rule priority_inj)
    have "''PASS'' \<in> set statuses" by (simp add: statuses_cases)
    then show "escalate_status ''PASS'' a \<in> set statuses"
      using assms(1) by (rule escalate_status_closed)
    show "a \<in> set statuses" by (rule assms)
    show "priority (escalate_status ''PASS'' a) = priority a"
      by (simp add: escalate_status_max)
  qed
  show ?thesis
    using one comm assoc unit by (simp add: escalate_status_max)
qed

theorem escalate_status_algebra_witness:
  "(escalate_status ''WARNING'' ''FAIL'' = ''WARNING'' \<or> escalate_status ''WARNING'' ''FAIL'' = ''FAIL'')
   \<and> priority ''WARNING'' \<le> priority (escalate_status ''WARNING'' ''FAIL'')
   \<and> priority ''FAIL'' \<le> priority (escalate_status ''WARNING'' ''FAIL'')
   \<and> escalate_status ''WARNING'' ''FAIL'' = escalate_status ''FAIL'' ''WARNING''
   \<and> escalate_status (escalate_status ''WARNING'' ''FAIL'') ''ERROR''
       = escalate_status ''WARNING'' (escalate_status ''FAIL'' ''ERROR'')
   \<and> escalate_status ''PASS'' ''WARNING'' = ''WARNING''"
proof -
  have a: "''WARNING'' \<in> set statuses" by (simp add: statuses_cases)
  have b: "''FAIL'' \<in> set statuses" by (simp add: statuses_cases)
  have c: "''ERROR'' \<in> set statuses" by (simp add: statuses_cases)
  show ?thesis by (rule escalate_status_algebra [OF a b c])
qed

text \<open>
  Claim C10.  Escalation is a total function on strings.  A string \<open>s\<close> that the priority
  table does not list has priority 0, so escalating \<open>s\<close> with a listed status \<open>x\<close> of
  priority above 0 gives \<open>x\<close>, and escalating \<^verbatim>\<open>PASS\<close> with \<open>s\<close> gives \<^verbatim>\<open>PASS\<close>.
\<close>

theorem escalate_status_unlisted:
  assumes "s \<notin> set statuses" and "x \<in> set statuses" and "0 < priority x"
  shows "priority s = 0 \<and> escalate_status s x = x \<and> escalate_status ''PASS'' s = ''PASS''"
  using assms by (simp add: escalate_status_def Let_def priority_unlisted)

theorem escalate_status_unlisted_witness:
  "priority ''DEGRADED'' = 0 \<and> escalate_status ''DEGRADED'' ''FAIL'' = ''FAIL''
   \<and> escalate_status ''PASS'' ''DEGRADED'' = ''PASS''"
proof -
  have s: "''DEGRADED'' \<notin> set statuses" by (simp add: statuses_cases)
  have x: "''FAIL'' \<in> set statuses" by (simp add: statuses_cases)
  have p: "0 < priority ''FAIL''" by simp
  show ?thesis by (rule escalate_status_unlisted [OF s x p])
qed

subsection \<open>Facts about dictionaries\<close>

lemma dict_by_Some:
  assumes "k \<in> key ` set xs"
  shows "\<exists>x. dict_by key xs k = Some x"
proof -
  have "k \<in> fst ` set (rev (map (\<lambda>x. (key x, x)) xs))"
    using assms by force
  then have "map_of (rev (map (\<lambda>x. (key x, x)) xs)) k \<noteq> None"
    by (simp only: map_of_eq_None_iff not_not)
  then show ?thesis by (auto simp: dict_by_def)
qed

lemma dict_by_key:
  assumes "dict_by key xs k = Some x"
  shows "key x = k \<and> x \<in> set xs"
proof -
  have "(k, x) \<in> set (rev (map (\<lambda>x. (key x, x)) xs))"
    using assms unfolding dict_by_def by (rule map_of_SomeD)
  then show ?thesis by auto
qed

subsection \<open>Facts about the processor comparison\<close>

lemma escalate_status_idem: "escalate_status (escalate_status s t) t = escalate_status s t"
  by (simp add: escalate_status_def Let_def)

lemma compare_socket_same:
  assumes "m socket_name = Some cpu"
  shows "compare_socket m m socket_name r = Inr r"
  using assms
  by (simp add: compare_socket_def compare_cores_def compare_model_def compare_threads_def)

lemma compare_sockets_same:
  assumes "set order \<subseteq> dom m"
  shows "compare_sockets m m order r = Inr r"
  using assms
proof (induction order)
  case Nil
  show ?case by simp
next
  case (Cons k ks)
  from Cons.prems obtain cpu where "m k = Some cpu" by auto
  then have "compare_socket m m k r = Inr r" by (rule compare_socket_same)
  moreover have "compare_sockets m m ks r = Inr r"
    using Cons by simp
  ultimately show ?case by simp
qed

lemma dom_dict_by: "dom (dict_by key xs) = key ` set xs"
proof
  show "dom (dict_by key xs) \<subseteq> key ` set xs"
    using dict_by_key [of key xs] by (auto simp: dom_def)
  show "key ` set xs \<subseteq> dom (dict_by key xs)"
    using dict_by_Some [of _ key xs] by (auto simp: dom_def)
qed

lemma compare_processors_same:
  assumes "set_iteration order (processor_keys cpus cpus)"
  shows "compare_processors order cpus cpus = Inr \<lparr>status = ''PASS'', differences = []\<rparr>"
proof -
  have "set order \<subseteq> dom (dict_by cpu_socket cpus)"
    using assms by (simp add: set_iteration_def processor_keys_def dom_dict_by)
  then show ?thesis
    by (simp add: compare_processors_def compare_sockets_same)
qed

lemma compare_cores_equal: "compare_cores c c r = Inr r"
  by (simp add: compare_cores_def)

lemma compare_cores_baseline_unknown:
  "b = Some (JStr ''Unknown'') \<Longrightarrow> compare_cores c b r = Inr r"
  by (simp add: compare_cores_def)

text \<open>The two reporting branches of the cores block raise: a current value
  \<^verbatim>\<open>'Unknown'\<close> against a known baseline, and two known values that differ.\<close>

lemma compare_cores_raises:
  "compare_cores (Some (JStr ''Unknown'')) (Some (JInt 28)) r = Inl (NameError ''result'')"
  "compare_cores (Some (JInt 24)) (Some (JInt 28)) r = Inl (NameError ''result'')"
  by (simp_all add: compare_cores_def)

text \<open>Where the cores block does not raise (the cores values are equal, or the
  baseline's is \<^verbatim>\<open>'Unknown'\<close>), the comparison of a socket that both snapshots hold
  completes: a model mismatch and a threads mismatch each append one finding and escalate
  the status with \<^verbatim>\<open>FAIL\<close>, and the cores field adds no finding.\<close>

lemma compare_socket_completes:
  assumes cur: "dict_by cpu_socket current socket_name = Some current_cpu"
    and base: "dict_by cpu_socket baseline socket_name = Some baseline_cpu"
    and cores: "cpu_cores current_cpu = cpu_cores baseline_cpu
                \<or> cpu_cores baseline_cpu = Some (JStr ''Unknown'')"
  shows "\<exists>r'. compare_socket (dict_by cpu_socket current) (dict_by cpu_socket baseline) socket_name r
             = Inr r'
         \<and> differences r' = differences r
             @ (if cpu_model current_cpu \<noteq> cpu_model baseline_cpu
                then [''CPU '' @ socket_name @ '' model mismatch: '' @ str_opt (cpu_model current_cpu)
                        @ '' vs '' @ str_opt (cpu_model baseline_cpu)] else [])
             @ (if cpu_threads current_cpu \<noteq> cpu_threads baseline_cpu
                then [''CPU '' @ socket_name @ '' threads mismatch: ''
                        @ str_jvalue (cpu_threads current_cpu)
                        @ '' vs '' @ str_jvalue (cpu_threads baseline_cpu)] else [])
         \<and> status r' = (if cpu_model current_cpu \<noteq> cpu_model baseline_cpu
                           \<or> cpu_threads current_cpu \<noteq> cpu_threads baseline_cpu
                         then escalate_status (status r) ''FAIL'' else status r)"
proof -
  let ?r1 = "compare_model socket_name current_cpu baseline_cpu r"
  have c: "compare_cores (cpu_cores current_cpu) (cpu_cores baseline_cpu) ?r1 = Inr ?r1"
    using cores compare_cores_equal compare_cores_baseline_unknown by metis
  have "compare_socket (dict_by cpu_socket current) (dict_by cpu_socket baseline) socket_name r
      = Inr (compare_threads socket_name current_cpu baseline_cpu ?r1)"
    by (simp add: compare_socket_def cur base c)
  then show ?thesis
    by (simp add: compare_threads_def compare_model_def add_difference_def escalate_status_idem)
qed

text \<open>A baseline cores value \<^verbatim>\<open>'Unknown'\<close> against a known current value takes the branch
  that passes: the comparison emits no finding.\<close>

lemma compare_processors_baseline_cores_unknown:
  "compare_processors [''CPU0'']
     [\<lparr>cpu_socket = ''CPU0'', cpu_model = Some ''Xeon Gold 6330'',
       cpu_cores = Some (JInt 28), cpu_threads = Some (JInt 56)\<rparr>]
     [\<lparr>cpu_socket = ''CPU0'', cpu_model = Some ''Xeon Gold 6330'',
       cpu_cores = Some (JStr ''Unknown''), cpu_threads = Some (JInt 56)\<rparr>]
   = Inr \<lparr>status = ''PASS'', differences = []\<rparr>"
  by (simp add: compare_processors_def dict_by_def compare_socket_def compare_cores_def
        compare_model_def compare_threads_def)

text \<open>
  Claim C3 does not hold of the code.  For one socket present in both snapshots with the
  same model and threads, a current cores value \<^verbatim>\<open>'Unknown'\<close> against the baseline's 28
  should give a \<^verbatim>\<open>WARNING\<close> finding, and a current value 24 against the baseline's 28 a
  \<^verbatim>\<open>FAIL\<close> finding, as the comments of the two branches say.  Both branches append to
  the name \<^verbatim>\<open>result\<close>, which the function never binds: the whole comparison raises
  \<^verbatim>\<open>NameError\<close> and returns no result.  A threads value \<^verbatim>\<open>'Unknown'\<close> on the current
  side alone is reported with status \<^verbatim>\<open>FAIL\<close>, where the claim expects \<^verbatim>\<open>WARNING\<close>: the
  threads field has no handling of unavailable values.
\<close>

theorem compare_processors_cores_raise:
  "compare_processors [''CPU0'']
     [\<lparr>cpu_socket = ''CPU0'', cpu_model = Some ''Xeon Gold 6330'',
       cpu_cores = Some (JStr ''Unknown''), cpu_threads = Some (JInt 56)\<rparr>]
     [\<lparr>cpu_socket = ''CPU0'', cpu_model = Some ''Xeon Gold 6330'',
       cpu_cores = Some (JInt 28), cpu_threads = Some (JInt 56)\<rparr>]
   = Inl (NameError ''result'')
   \<and> compare_processors [''CPU0'']
     [\<lparr>cpu_socket = ''CPU0'', cpu_model = Some ''Xeon Gold 6330'',
       cpu_cores = Some (JInt 24), cpu_threads = Some (JInt 56)\<rparr>]
     [\<lparr>cpu_socket = ''CPU0'', cpu_model = Some ''Xeon Gold 6330'',
       cpu_cores = Some (JInt 28), cpu_threads = Some (JInt 56)\<rparr>]
   = Inl (NameError ''result'')
   \<and> compare_processors [''CPU0'']
     [\<lparr>cpu_socket = ''CPU0'', cpu_model = Some ''Xeon Gold 6330'',
       cpu_cores = Some (JInt 28), cpu_threads = Some (JStr ''Unknown'')\<rparr>]
     [\<lparr>cpu_socket = ''CPU0'', cpu_model = Some ''Xeon Gold 6330'',
       cpu_cores = Some (JInt 28), cpu_threads = Some (JInt 56)\<rparr>]
   = Inr \<lparr>status = ''FAIL'', differences = [''CPU CPU0 threads mismatch: Unknown vs 56'']\<rparr>"
proof (intro conjI)
  show "compare_processors [''CPU0'']
     [\<lparr>cpu_socket = ''CPU0'', cpu_model = Some ''Xeon Gold 6330'',
       cpu_cores = Some (JStr ''Unknown''), cpu_threads = Some (JInt 56)\<rparr>]
     [\<lparr>cpu_socket = ''CPU0'', cpu_model = Some ''Xeon Gold 6330'',
       cpu_cores = Some (JInt 28), cpu_threads = Some (JInt 56)\<rparr>]
   = Inl (NameError ''result'')"
    by code_simp
  show "compare_processors [''CPU0'']
     [\<lparr>cpu_socket = ''CPU0'', cpu_model = Some ''Xeon Gold 6330'',
       cpu_cores = Some (JInt 24), cpu_threads = Some (JInt 56)\<rparr>]
     [\<lparr>cpu_socket = ''CPU0'', cpu_model = Some ''Xeon Gold 6330'',
       cpu_cores = Some (JInt 28), cpu_threads = Some (JInt 56)\<rparr>]
   = Inl (NameError ''result'')"
    by code_simp
  show "compare_processors [''CPU0'']
     [\<lparr>cpu_socket = ''CPU0'', cpu_model = Some ''Xeon Gold 6330'',
       cpu_cores = Some (JInt 28), cpu_threads = Some (JStr ''Unknown'')\<rparr>]
     [\<lparr>cpu_socket = ''CPU0'', cpu_model = Some ''Xeon Gold 6330'',
       cpu_cores = Some (JInt 28), cpu_threads = Some (JInt 56)\<rparr>]
   = Inr \<lparr>status = ''FAIL'', differences = [''CPU CPU0 threads mismatch: Unknown vs 56'']\<rparr>"
    by code_simp
qed

subsection \<open>Facts about the memory comparison\<close>

lemma compare_slot_status:
  assumes "status r = ''WARNING'' \<or> status r = ''FAIL''"
  shows "status (compare_slot c b slot r) = status r"
  using assms by (auto simp: compare_slot_def add_difference_def escalate_status_def Let_def)

lemma compare_slot_differences:
  "\<exists>ds. differences (compare_slot c b slot r) = differences r @ ds"
  by (simp add: compare_slot_def add_difference_def Let_def)

lemma fold_compare_slot_status:
  assumes "status r = ''WARNING'' \<or> status r = ''FAIL''"
  shows "status (fold (compare_slot c b) slots r) = status r"
  using assms
proof (induction slots arbitrary: r)
  case Nil
  show ?case by simp
next
  case (Cons k ks)
  have "status (compare_slot c b k r) = status r"
    using Cons.prems by (rule compare_slot_status)
  then show ?case using Cons by simp
qed

lemma fold_compare_slot_differences:
  "\<exists>ds. differences (fold (compare_slot c b) slots r) = differences r @ ds"
proof (induction slots arbitrary: r)
  case Nil
  show ?case by simp
next
  case (Cons k ks)
  obtain d1 where d1: "differences (compare_slot c b k r) = differences r @ d1"
    using compare_slot_differences by blast
  obtain d2 where "differences (fold (compare_slot c b) ks (compare_slot c b k r))
      = differences (compare_slot c b k r) @ d2"
    using Cons.IH by blast
  then show ?case using d1 by simp
qed

lemma fold_compare_slot_same: "fold (compare_slot m m) slots r = r"
  by (induction slots) (simp_all add: compare_slot_def)

lemma compare_memory_same:
  "status (compare_memory dimms dimms) = ''PASS'' \<and> differences (compare_memory dimms dimms) = []"
  by (simp add: compare_memory_def fold_compare_slot_same)

lemmas parse_memory_size_eval =
  parse_memory_size_def upper_def upper_char_def strip_def is_space_def endswith_def py_int_def
  py_digits_def is_digit_def digit_val_def isdigit_def first_number_def

lemma scenario_counts:
  "populated_count scenario_baseline = 4" "populated_count scenario_current = 4"
  "total_memory_gb scenario_baseline = 128" "total_memory_gb scenario_current = 96"
  by (simp_all add: scenario_baseline_def scenario_current_def mk_dimm_def populated_count_def
        total_memory_gb_def is_populated_def get_or_def parse_memory_size_eval)

lemma recount_counts:
  "populated_count recount_baseline = 2" "populated_count recount_current = 3"
  "total_memory_gb recount_baseline = 64" "total_memory_gb recount_current = 64"
  by (simp_all add: recount_baseline_def recount_current_def mk_dimm_def populated_count_def
        total_memory_gb_def is_populated_def get_or_def parse_memory_size_eval)

lemma compare_memory_count_only:
  assumes "populated_count current \<noteq> populated_count baseline"
    and "total_memory_gb current = total_memory_gb baseline"
  shows "status (compare_memory current baseline) = ''WARNING''"
    and "\<lparr>md_type = ''slot_count_mismatch'', md_slot = None, md_severity = ''warning''\<rparr>
           \<in> set (differences (compare_memory current baseline))"
proof -
  let ?r0 = "\<lparr>status = ''PASS'', differences = [],
                memory_slots_populated_current = populated_count current,
                memory_slots_populated_baseline = populated_count baseline,
                total_memory_current_gb = total_memory_gb current,
                total_memory_baseline_gb = total_memory_gb baseline\<rparr>"
  let ?d = "\<lparr>md_type = ''slot_count_mismatch'', md_slot = None, md_severity = ''warning''\<rparr>"
  let ?r1 = "add_difference ?r0 ?d ''WARNING''"
  let ?f = "fold (compare_slot (dict_by dimm_slot current) (dict_by dimm_slot baseline))
              (sorted_union (map dimm_slot current) (map dimm_slot baseline))"
  have eq: "compare_memory current baseline = ?f ?r1"
    using assms by (simp add: compare_memory_def add_difference_def)
  have s1: "status ?r1 = ''WARNING''"
    by (simp add: add_difference_def escalate_status_def)
  have d1: "differences ?r1 = [?d]"
    by (simp add: add_difference_def)
  show "status (compare_memory current baseline) = ''WARNING''"
    using fold_compare_slot_status [of ?r1] s1 eq by simp
  obtain ds where "differences (?f ?r1) = differences ?r1 @ ds"
    using fold_compare_slot_differences by blast
  then show "?d \<in> set (differences (compare_memory current baseline))"
    using d1 eq by simp
qed

lemma compare_memory_total:
  assumes "total_memory_gb current \<noteq> total_memory_gb baseline"
  shows "status (compare_memory current baseline) = ''FAIL''"
    and "\<lparr>md_type = ''total_memory_mismatch'', md_slot = None, md_severity = ''major''\<rparr>
           \<in> set (differences (compare_memory current baseline))"
proof -
  let ?r0 = "\<lparr>status = ''PASS'', differences = [],
                memory_slots_populated_current = populated_count current,
                memory_slots_populated_baseline = populated_count baseline,
                total_memory_current_gb = total_memory_gb current,
                total_memory_baseline_gb = total_memory_gb baseline\<rparr>"
  let ?c = "\<lparr>md_type = ''slot_count_mismatch'', md_slot = None, md_severity = ''warning''\<rparr>"
  let ?d = "\<lparr>md_type = ''total_memory_mismatch'', md_slot = None, md_severity = ''major''\<rparr>"
  let ?r1 = "if populated_count current \<noteq> populated_count baseline
             then add_difference ?r0 ?c ''WARNING'' else ?r0"
  let ?r2 = "add_difference ?r1 ?d ''FAIL''"
  let ?f = "fold (compare_slot (dict_by dimm_slot current) (dict_by dimm_slot baseline))
              (sorted_union (map dimm_slot current) (map dimm_slot baseline))"
  have eq: "compare_memory current baseline = ?f ?r2"
    using assms by (simp add: compare_memory_def add_difference_def)
  have s2: "status ?r2 = ''FAIL''"
    by (simp add: add_difference_def escalate_status_def)
  have d2: "?d \<in> set (differences ?r2)"
    by (simp add: add_difference_def)
  show "status (compare_memory current baseline) = ''FAIL''"
    using fold_compare_slot_status [of ?r2] s2 eq by simp
  obtain ds where "differences (?f ?r2) = differences ?r2 @ ds"
    using fold_compare_slot_differences by blast
  then show "?d \<in> set (differences (compare_memory current baseline))"
    using d2 eq by simp
qed

text \<open>
  Claim C7.  When the two snapshots differ in the number of populated modules and not in
  total capacity, the memory status is \<^verbatim>\<open>WARNING\<close> and the findings hold the count
  mismatch with severity \<^verbatim>\<open>warning\<close>.  When they differ in total capacity, the status is
  \<^verbatim>\<open>FAIL\<close> and the findings hold the capacity mismatch with severity \<^verbatim>\<open>major\<close>.  In
  particular four populated modules totalling 128 GiB in the baseline against four
  populated modules totalling 96 GiB give \<^verbatim>\<open>FAIL\<close>.
\<close>

theorem compare_memory_severity:
  "(populated_count current \<noteq> populated_count baseline
      \<and> total_memory_gb current = total_memory_gb baseline
    \<longrightarrow> status (compare_memory current baseline) = ''WARNING''
      \<and> \<lparr>md_type = ''slot_count_mismatch'', md_slot = None, md_severity = ''warning''\<rparr>
           \<in> set (differences (compare_memory current baseline)))
   \<and> (total_memory_gb current \<noteq> total_memory_gb baseline
    \<longrightarrow> status (compare_memory current baseline) = ''FAIL''
      \<and> \<lparr>md_type = ''total_memory_mismatch'', md_slot = None, md_severity = ''major''\<rparr>
           \<in> set (differences (compare_memory current baseline)))
   \<and> (populated_count baseline = 4 \<and> total_memory_gb baseline = 128
      \<and> populated_count current = 4 \<and> total_memory_gb current = 96
    \<longrightarrow> status (compare_memory current baseline) = ''FAIL'')"
proof (intro conjI impI)
  assume "populated_count current \<noteq> populated_count baseline
      \<and> total_memory_gb current = total_memory_gb baseline"
  then show "status (compare_memory current baseline) = ''WARNING''"
    and "\<lparr>md_type = ''slot_count_mismatch'', md_slot = None, md_severity = ''warning''\<rparr>
           \<in> set (differences (compare_memory current baseline))"
    by (simp_all add: compare_memory_count_only)
next
  assume "total_memory_gb current \<noteq> total_memory_gb baseline"
  then show "status (compare_memory current baseline) = ''FAIL''"
    and "\<lparr>md_type = ''total_memory_mismatch'', md_slot = None, md_severity = ''major''\<rparr>
           \<in> set (differences (compare_memory current baseline))"
    by (simp_all add: compare_memory_total)
next
  assume "populated_count baseline = 4 \<and> total_memory_gb baseline = 128
      \<and> populated_count current = 4 \<and> total_memory_gb current = 96"
  then have "total_memory_gb current \<noteq> total_memory_gb baseline" by simp
  then show "status (compare_memory current baseline) = ''FAIL''"
    by (rule compare_memory_total)
qed

theorem compare_memory_severity_witness:
  "populated_count recount_current = 3 \<and> populated_count recount_baseline = 2
   \<and> total_memory_gb recount_current = 64 \<and> total_memory_gb recount_baseline = 64
   \<and> status (compare_memory recount_current recount_baseline) = ''WARNING''
   \<and> populated_count scenario_baseline = 4 \<and> total_memory_gb scenario_baseline = 128
   \<and> populated_count scenario_current = 4 \<and> total_memory_gb scenario_current = 96
   \<and> status (compare_memory scenario_current scenario_baseline) = ''FAIL''"
  using compare_memory_severity [of recount_current recount_baseline]
    compare_memory_severity [of scenario_current scenario_baseline]
  by (simp add: scenario_counts recount_counts)

subsection \<open>Facts about ordered dictionaries\<close>

lemma keys_fold_update:
  "fst ` set (fold (\<lambda>x d. AList.update (key x) x d) xs d0) = fst ` set d0 \<union> key ` set xs"
  by (induction xs arbitrary: d0) (auto simp: dom_update)

lemma keys_odict_by: "fst ` set (odict_by key xs) = key ` set xs"
  by (simp add: odict_by_def keys_fold_update)

lemma distinct_group_add:
  assumes "distinct (map fst d)"
  shows "distinct (map fst (group_add k v d))"
proof (cases "map_of d k")
  case None
  then have "k \<notin> fst ` set d" by (simp add: map_of_eq_None_iff)
  then show ?thesis using assms None by (simp add: group_add_def)
next
  case (Some vs)
  then show ?thesis using assms by (simp add: group_add_def distinct_update)
qed

lemma distinct_fold_group_add:
  "distinct (map fst d0) \<Longrightarrow> distinct (map fst (fold (\<lambda>x d. group_add (key x) x d) xs d0))"
  by (induction xs arbitrary: d0) (simp_all add: distinct_group_add)

lemma distinct_group_by: "distinct (map fst (group_by key xs))"
  by (simp add: group_by_def distinct_fold_group_add)

subsection \<open>Facts about the PCI comparison\<close>

lemma check_class_same:
  assumes "distinct (map fst d)" and "entry \<in> set d"
  shows "check_class d entry r = r"
proof -
  have "map_of d (fst entry) = Some (snd entry)"
    using assms by (simp add: map_of_is_SomeI)
  then show ?thesis by (simp add: check_class_def group_count_def)
qed

lemma fold_check_class_same:
  assumes "distinct (map fst d)" and "set es \<subseteq> set d"
  shows "fold (check_class d) es r = r"
  using assms(2) by (induction es) (simp_all add: check_class_same [OF assms(1)])

lemma check_new_class_same:
  assumes "entry \<in> set d"
  shows "check_new_class d entry r = r"
proof -
  have "fst entry \<in> fst ` set d" using assms by simp
  then have "map_of d (fst entry) \<noteq> None" by (simp only: map_of_eq_None_iff not_not)
  then obtain vs where "map_of d (fst entry) = Some vs" by auto
  then show ?thesis by (simp add: check_new_class_def)
qed

lemma fold_check_new_class_same:
  assumes "set es \<subseteq> set d"
  shows "fold (check_new_class d) es r = r"
  using assms by (induction es) (simp_all add: check_new_class_same)

lemma compare_bdf_same:
  assumes "bdf \<in> fst ` set d"
  shows "compare_bdf d d bdf r = r"
proof -
  have "map_of d bdf \<noteq> None" using assms by (simp only: map_of_eq_None_iff not_not)
  then obtain dev where "map_of d bdf = Some dev" by auto
  then show ?thesis by (simp add: compare_bdf_def)
qed

lemma fold_compare_bdf_same:
  assumes "set order \<subseteq> fst ` set d"
  shows "fold (compare_bdf d d) order r = r"
  using assms by (induction order) (simp_all add: compare_bdf_same)

lemma compare_pci_devices_same:
  assumes "set_iteration order (pci_keys devs devs)"
  shows "compare_pci_devices order devs devs = \<lparr>status = ''PASS'', differences = []\<rparr>"
proof -
  let ?d = "odict_by pci_bdf devs"
  have "set order = fst ` set (critical_devices ?d)"
    using assms by (simp add: set_iteration_def pci_keys_def)
  moreover have "set (critical_devices ?d) \<subseteq> set ?d"
    by (auto simp: critical_devices_def)
  ultimately have sub: "set order \<subseteq> fst ` set ?d" by auto
  have dist: "distinct (map fst (devices_by_class (critical_devices ?d)))"
    by (simp add: devices_by_class_def distinct_group_by)
  show ?thesis
    by (simp add: compare_pci_devices_def Let_def fold_check_class_same [OF dist]
          fold_check_new_class_same fold_compare_bdf_same [OF sub])
qed

subsection \<open>Facts about the USB comparison\<close>

lemma fold_check_vid_pid_same: "fold (check_vid_pid d d) order r = r"
  by (induction order) (simp_all add: check_vid_pid_def)

lemma compare_usb_devices_same:
  "status (compare_usb_devices order devs devs) = ''PASS''
   \<and> differences (compare_usb_devices order devs devs) = []"
  by (simp add: compare_usb_devices_def Let_def fold_check_vid_pid_same)

text \<open>
  Claim C4 does not hold of the code.  The KVM hub \<^verbatim>\<open>0557:8021\<close> is on the ignore list
  and present in the current snapshot only.  Its description names a hub, so the device
  counts as critical: the status is \<^verbatim>\<open>WARNING\<close> with one finding, where the comparison
  without the device gives \<^verbatim>\<open>PASS\<close>.  The device is in the list of ignored devices.
\<close>

theorem compare_usb_devices_ignored_hub:
  "status (compare_usb_devices [''0557:8021''] [kvm_hub] []) = ''WARNING''
   \<and> differences (compare_usb_devices [''0557:8021''] [kvm_hub] [])
       = [''USB device 0557:8021 (Unknown): expected 0, found 1'']
   \<and> ignored_devices (compare_usb_devices [''0557:8021''] [kvm_hub] []) = Some [kvm_hub]
   \<and> set_iteration [''0557:8021''] (usb_keys [kvm_hub] [])
   \<and> status (compare_usb_devices [] [] []) = ''PASS''
   \<and> set_iteration [] (usb_keys [] [])"
proof (intro conjI)
  show "status (compare_usb_devices [''0557:8021''] [kvm_hub] []) = ''WARNING''"
    by code_simp
  show "differences (compare_usb_devices [''0557:8021''] [kvm_hub] [])
       = [''USB device 0557:8021 (Unknown): expected 0, found 1'']"
    by code_simp
  show "ignored_devices (compare_usb_devices [''0557:8021''] [kvm_hub] []) = Some [kvm_hub]"
    by code_simp
  show "set_iteration [''0557:8021''] (usb_keys [kvm_hub] [])"
    by code_simp
  show "status (compare_usb_devices [] [] []) = ''PASS''"
    by code_simp
  show "set_iteration [] (usb_keys [] [])"
    by code_simp
qed

subsection \<open>Facts about the storage comparison\<close>

lemma compare_positions_same: "compare_positions t i xs xs = []"
  by (induction xs arbitrary: i) simp_all

lemma compare_type_same: "compare_type g g t = []"
  by (simp add: compare_type_def compare_positions_same)

lemma compare_storage_devices_same:
  "status (compare_storage_devices over_100 order devs devs) = ''PASS''
   \<and> differences (compare_storage_devices over_100 order devs devs) = []"
  by (simp add: compare_storage_devices_def Let_def compare_type_same)

text \<open>
  Claim C8 does not hold of the code.  \<^verbatim>\<open>group_by_type\<close> takes the device name from the
  key \<^verbatim>\<open>device\<close>, which the collectors never write: they write \<^verbatim>\<open>name\<close>.  The name is
  therefore the empty text and no name-prefix rule applies: a drive named \<^verbatim>\<open>nvme0n1\<close>
  whose model does not mention NVMe lands in the bucket \<^verbatim>\<open>other\<close>, and the \<^verbatim>\<open>nvme\<close>
  bucket stays empty.  In the same way a drive named \<^verbatim>\<open>sda\<close> and one named
  \<^verbatim>\<open>mmcblk0\<close> land in \<^verbatim>\<open>other\<close>.
\<close>

theorem group_by_type_ignores_name:
  "startswith (stor_name nvme_drive) ''nvme''
   \<and> storage_type over_100 nvme_drive = ''other''
   \<and> bucket (group_by_type over_100 (filter_virtual_devices [nvme_drive])) ''nvme'' = []
   \<and> bucket (group_by_type over_100 (filter_virtual_devices [nvme_drive])) ''other'' = [nvme_drive]
   \<and> startswith (stor_name sata_drive) ''sd''
   \<and> storage_type over_100 sata_drive = ''other''
   \<and> startswith (stor_name emmc_drive) ''mmcblk''
   \<and> storage_type over_100 emmc_drive = ''other''"
proof -
  have t2: "storage_type over_100 sata_drive = ''other''"
    by code_simp
  have t3: "storage_type over_100 emmc_drive = ''other''"
    by code_simp
  have t: "storage_type over_100 nvme_drive = ''other''"
    by code_simp
  have f: "filter_virtual_devices [nvme_drive] = [nvme_drive]"
    by code_simp
  have g: "group_by_type over_100 [nvme_drive]
      = [(''nvme'', []), (''sata'', []), (''sas'', []), (''mmc'', []), (''usb'', []), (''raid'', []),
         (''other'', [nvme_drive])]"
    by (simp add: group_by_type_def t storage_types_def bucket_add_def)
  show ?thesis
    by (simp add: t t2 t3 f g bucket_def) (simp add: nvme_drive_def sata_drive_def emmc_drive_def)
qed

subsection \<open>Facts about the riser comparison\<close>

lemma fru_differences_same:
  assumes "serial_present riser"
  shows "fru_differences slot riser riser = []"
  using assms by (simp add: fru_differences_def serial_present_def)

lemma compare_riser_slot_same:
  assumes "m slot = Some riser" and "riser_is_populated riser \<longrightarrow> serial_present riser"
  shows "rs_differences (compare_riser_slot m m slot st) = rs_differences st
       \<and> (populated_current (compare_riser_slot m m slot st)
            = populated_baseline (compare_riser_slot m m slot st)
          \<longleftrightarrow> populated_current st = populated_baseline st)"
  using assms by (simp add: compare_riser_slot_def Let_def fru_differences_same)

lemma fold_compare_riser_slot_same:
  assumes "\<And>slot. slot \<in> set slots \<Longrightarrow>
             \<exists>riser. m slot = Some riser \<and> (riser_is_populated riser \<longrightarrow> serial_present riser)"
  shows "rs_differences (fold (compare_riser_slot m m) slots st) = rs_differences st
       \<and> (populated_current (fold (compare_riser_slot m m) slots st)
            = populated_baseline (fold (compare_riser_slot m m) slots st)
          \<longleftrightarrow> populated_current st = populated_baseline st)"
  using assms
proof (induction slots arbitrary: st)
  case Nil
  show ?case by simp
next
  case (Cons k ks)
  obtain riser where r: "m k = Some riser" "riser_is_populated riser \<longrightarrow> serial_present riser"
    using Cons.prems [of k] by auto
  have step: "rs_differences (compare_riser_slot m m k st) = rs_differences st
       \<and> (populated_current (compare_riser_slot m m k st)
            = populated_baseline (compare_riser_slot m m k st)
          \<longleftrightarrow> populated_current st = populated_baseline st)"
    using r by (rule compare_riser_slot_same)
  have rest: "\<And>slot. slot \<in> set ks \<Longrightarrow>
             \<exists>riser. m slot = Some riser \<and> (riser_is_populated riser \<longrightarrow> serial_present riser)"
    using Cons.prems by simp
  show ?case
    using Cons.IH [OF rest, of "compare_riser_slot m m k st"] step by simp
qed

lemma compare_riser_cards_same:
  assumes "serials_present risers"
  shows "status (compare_riser_cards risers risers) = ''PASS''
       \<and> differences (compare_riser_cards risers risers) = []"
proof -
  let ?m = "dict_by riser_key risers"
  let ?slots = "sorted_union (map riser_key risers) (map riser_key risers)"
  let ?st0 = "\<lparr>rs_differences = [], populated_current = 0, populated_baseline = 0\<rparr>"
  have looked: "\<exists>riser. ?m slot = Some riser \<and> (riser_is_populated riser \<longrightarrow> serial_present riser)"
    if "slot \<in> set ?slots" for slot
  proof -
    from that have "slot \<in> riser_key ` set risers" by (simp add: sorted_union_def)
    then obtain riser where s: "?m slot = Some riser" using dict_by_Some by fastforce
    then have k: "riser_key riser = slot" and mem: "riser \<in> set risers"
      using dict_by_key [of riser_key risers slot riser] by simp_all
    have "riser_is_populated riser \<longrightarrow> serial_present riser"
      using assms mem s k by (auto simp: serials_present_def list_all_iff)
    with s show ?thesis by blast
  qed
  have f: "rs_differences (fold (compare_riser_slot ?m ?m) ?slots ?st0) = []
       \<and> populated_current (fold (compare_riser_slot ?m ?m) ?slots ?st0)
            = populated_baseline (fold (compare_riser_slot ?m ?m) ?slots ?st0)"
    using fold_compare_riser_slot_same [of ?slots ?m ?st0] looked by simp
  show ?thesis
    using f by (simp add: compare_riser_cards_def Let_def)
qed

subsection \<open>A snapshot against its own copy\<close>

text \<open>
  Claim C2, as amended.  Comparing a list of records with an identical copy gives the
  status \<^verbatim>\<open>PASS\<close> and no differences in the processor, memory, PCI, USB and storage
  comparators, whatever order the sets of keys are iterated in.  The riser comparator does
  so when every populated riser it looks at has a serial number that is neither empty nor
  the placeholder \<^verbatim>\<open>Required\<close>.
\<close>

theorem compare_same_snapshot:
  assumes "set_iteration cpu_order (processor_keys cpus cpus)"
    and "set_iteration pci_order (pci_keys pcis pcis)"
    and "serials_present risers"
  shows "compare_processors cpu_order cpus cpus = Inr \<lparr>status = ''PASS'', differences = []\<rparr>
       \<and> status (compare_memory dimms dimms) = ''PASS''
       \<and> differences (compare_memory dimms dimms) = []
       \<and> compare_pci_devices pci_order pcis pcis = \<lparr>status = ''PASS'', differences = []\<rparr>
       \<and> status (compare_usb_devices usb_order usbs usbs) = ''PASS''
       \<and> differences (compare_usb_devices usb_order usbs usbs) = []
       \<and> status (compare_storage_devices over_100 type_order disks disks) = ''PASS''
       \<and> differences (compare_storage_devices over_100 type_order disks disks) = []
       \<and> status (compare_riser_cards risers risers) = ''PASS''
       \<and> differences (compare_riser_cards risers risers) = []"
  using compare_processors_same [OF assms(1)] compare_memory_same [of dimms]
    compare_pci_devices_same [OF assms(2)] compare_usb_devices_same [of usb_order usbs]
    compare_storage_devices_same [of over_100 type_order disks]
    compare_riser_cards_same [OF assms(3)]
  by simp

theorem compare_same_snapshot_witness:
  "compare_processors [''CPU1'', ''CPU0''] [cpu0, cpu1] [cpu0, cpu1]
     = Inr \<lparr>status = ''PASS'', differences = []\<rparr>
   \<and> status (compare_memory scenario_baseline scenario_baseline) = ''PASS''
   \<and> differences (compare_memory scenario_baseline scenario_baseline) = []
   \<and> compare_pci_devices [''17:00.1'', ''17:00.0'']
        [ethernet_port ''17:00.0'', ethernet_port ''17:00.1'']
        [ethernet_port ''17:00.0'', ethernet_port ''17:00.1'']
     = \<lparr>status = ''PASS'', differences = []\<rparr>
   \<and> status (compare_usb_devices [''0557:8021''] [kvm_hub] [kvm_hub]) = ''PASS''
   \<and> differences (compare_usb_devices [''0557:8021''] [kvm_hub] [kvm_hub]) = []
   \<and> status (compare_storage_devices (\<lambda>s. False) storage_types [nvme_drive] [nvme_drive]) = ''PASS''
   \<and> differences (compare_storage_devices (\<lambda>s. False) storage_types [nvme_drive] [nvme_drive]) = []
   \<and> status (compare_riser_cards [baseline_riser_1\<lparr>fru_serial_number := Some ''SN2401007''\<rparr>]
                [baseline_riser_1\<lparr>fru_serial_number := Some ''SN2401007''\<rparr>]) = ''PASS''
   \<and> differences (compare_riser_cards [baseline_riser_1\<lparr>fru_serial_number := Some ''SN2401007''\<rparr>]
                [baseline_riser_1\<lparr>fru_serial_number := Some ''SN2401007''\<rparr>]) = []"
proof -
  have h1: "set_iteration [''CPU1'', ''CPU0''] (processor_keys [cpu0, cpu1] [cpu0, cpu1])"
    by code_simp
  have h2: "set_iteration [''17:00.1'', ''17:00.0'']
      (pci_keys [ethernet_port ''17:00.0'', ethernet_port ''17:00.1'']
         [ethernet_port ''17:00.0'', ethernet_port ''17:00.1''])"
    by code_simp
  have h3: "serials_present [baseline_riser_1\<lparr>fru_serial_number := Some ''SN2401007''\<rparr>]"
    by code_simp
  show ?thesis
    by (rule compare_same_snapshot [OF h1 h2 h3])
qed

text \<open>
  Claim C2 as stated fails for the riser comparator: the baseline that the repository
  generates marks the serial number of a populated riser as \<^verbatim>\<open>Required\<close>, and the serial
  check reports it even when both sides are the same list.
\<close>

theorem compare_riser_cards_same_counterexample:
  "status (compare_riser_cards [baseline_riser_1] [baseline_riser_1]) = ''FAIL''
   \<and> differences (compare_riser_cards [baseline_riser_1] [baseline_riser_1])
       = [''Slot RISER_SLOT_1: FRU Serial Number missing or invalid - current='' @ quoted ''Required'']"
proof (intro conjI)
  show "status (compare_riser_cards [baseline_riser_1] [baseline_riser_1]) = ''FAIL''"
    by code_simp
  show "differences (compare_riser_cards [baseline_riser_1] [baseline_riser_1])
       = [''Slot RISER_SLOT_1: FRU Serial Number missing or invalid - current='' @ quoted ''Required'']"
    by code_simp
qed

subsection \<open>Facts about the sensor validation\<close>

lemma fold_check_discrete_missing:
  "fold (check_discrete [] critical) entries r =
     r\<lparr>violations := violations r
          @ map (\<lambda>entry. \<lparr>v_sensor = fst entry, v_type = ''MISSING'', v_actual = None,
                          v_expected = None\<rparr>) entries\<rparr>"
  by (induction entries arbitrary: r) (simp_all add: check_discrete_def)

text \<open>
  Claim C5 does not hold of the discrete validator.  With no reading at all, every
  configured discrete sensor is reported as a \<^verbatim>\<open>MISSING\<close> violation, the counter of
  missing sensors stays 0 and the status is \<^verbatim>\<open>PASS\<close>; the status is \<^verbatim>\<open>PASS\<close> as well when
  one configured sensor reads an accepted status and another, a critical one, is missing.
\<close>

theorem validate_discrete_sensors_missing:
  "cat_status (validate_discrete_sensors discrete []) = ''PASS''
   \<and> missing_sensors (validate_discrete_sensors discrete []) = 0
   \<and> violations (validate_discrete_sensors discrete [])
       = map (\<lambda>entry. \<lparr>v_sensor = fst entry, v_type = ''MISSING'', v_actual = None,
                       v_expected = None\<rparr>) (acceptable_statuses discrete)
   \<and> validate_discrete_sensors
        \<lparr>acceptable_statuses = [(''PS1_Status'', [''0x0180'']), (''Chassis_Intru'', [''0x0080''])],
         critical_if_different = [''PS1_Status'']\<rparr>
        [(''Chassis_Intru'',
          \<lparr>sensor_value = ''0x0'', sensor_unit = ''discrete'', sensor_status = ''0x0080''\<rparr>)]
       = \<lparr>cat_status = ''PASS'', cat_error = None, actually_checked = 1, passed_sensors = 1,
          warning_sensors = 0, failed_sensors = 0, missing_sensors = 0, skipped_sensors = 0,
          violations = [\<lparr>v_sensor = ''PS1_Status'', v_type = ''MISSING'', v_actual = None,
                         v_expected = None\<rparr>]\<rparr>"
proof (intro conjI)
  show "cat_status (validate_discrete_sensors discrete []) = ''PASS''"
    by (simp add: validate_discrete_sensors_def fold_check_discrete_missing
          create_validation_result_dict_def)
  show "missing_sensors (validate_discrete_sensors discrete []) = 0"
    by (simp add: validate_discrete_sensors_def fold_check_discrete_missing
          create_validation_result_dict_def)
  show "violations (validate_discrete_sensors discrete [])
       = map (\<lambda>entry. \<lparr>v_sensor = fst entry, v_type = ''MISSING'', v_actual = None,
                       v_expected = None\<rparr>) (acceptable_statuses discrete)"
    by (simp add: validate_discrete_sensors_def fold_check_discrete_missing
          create_validation_result_dict_def)
  show "validate_discrete_sensors
        \<lparr>acceptable_statuses = [(''PS1_Status'', [''0x0180'']), (''Chassis_Intru'', [''0x0080''])],
         critical_if_different = [''PS1_Status'']\<rparr>
        [(''Chassis_Intru'',
          \<lparr>sensor_value = ''0x0'', sensor_unit = ''discrete'', sensor_status = ''0x0080''\<rparr>)]
       = \<lparr>cat_status = ''PASS'', cat_error = None, actually_checked = 1, passed_sensors = 1,
          warning_sensors = 0, failed_sensors = 0, missing_sensors = 0, skipped_sensors = 0,
          violations = [\<lparr>v_sensor = ''PS1_Status'', v_type = ''MISSING'', v_actual = None,
                         v_expected = None\<rparr>]\<rparr>"
    by (simp add: validate_discrete_sensors_def check_discrete_def
          create_validation_result_dict_def)
qed

lemma run_category_stores:
  "run_category sensors (name, f) (d, k)
     = (AList.update name (case f sensors of Inl msg \<Rightarrow> error_stub msg | Inr r \<Rightarrow> r) d,
        k + (case f sensors of Inl msg \<Rightarrow> 0 | Inr r \<Rightarrow> 1))"
  by (simp add: run_category_def split: sum.splits)

lemma run_categories:
  "fst (fold (run_category sensors) (category_functions v1 v2 v3 v4 v5) ([], 0))
     = [(''voltages'', case v1 sensors of Inl msg \<Rightarrow> error_stub msg | Inr r \<Rightarrow> r),
        (''temperatures'', case v2 sensors of Inl msg \<Rightarrow> error_stub msg | Inr r \<Rightarrow> r),
        (''fans'', case v3 sensors of Inl msg \<Rightarrow> error_stub msg | Inr r \<Rightarrow> r),
        (''power'', case v4 sensors of Inl msg \<Rightarrow> error_stub msg | Inr r \<Rightarrow> r),
        (''discrete'', case v5 sensors of Inl msg \<Rightarrow> error_stub msg | Inr r \<Rightarrow> r)]"
  by (simp add: category_functions_def run_category_stores)

lemma category_results_collected:
  "category_results (perform_full_validation (Inr sensors) v1 v2 v3 v4 v5)
     = fst (fold (run_category sensors) (category_functions v1 v2 v3 v4 v5) ([], 0))"
  by (simp add: perform_full_validation_def Let_def)

lemma overall_status_collected:
  "overall_status (perform_full_validation (Inr sensors) v1 v2 v3 v4 v5)
     = (let all_statuses = map (\<lambda>(name, r). cat_status r)
              (fst (fold (run_category sensors) (category_functions v1 v2 v3 v4 v5) ([], 0)))
        in if ''ERROR'' \<in> set all_statuses then ''ERROR''
           else if ''FAIL'' \<in> set all_statuses then ''FAIL''
           else if ''WARNING'' \<in> set all_statuses then ''WARNING''
           else ''PASS'')"
  by (simp add: perform_full_validation_def Let_def)

lemma status_chain_range:
  "(if a then ''ERROR'' else if b then ''FAIL'' else if c then ''WARNING'' else ''PASS'')
     \<in> set [''PASS'', ''WARNING'', ''FAIL'', ''ERROR'']"
  by simp

lemma overall_status_range:
  "overall_status (perform_full_validation collected v1 v2 v3 v4 v5)
     \<in> set [''PASS'', ''WARNING'', ''FAIL'', ''ERROR'']"
proof (cases collected)
  case (Inl e)
  then show ?thesis by (simp add: perform_full_validation_def)
next
  case (Inr sensors)
  show ?thesis unfolding Inr overall_status_collected Let_def by (rule status_chain_range)
qed

lemma overall_status_error:
  assumes "v1 sensors = Inl msg \<or> v2 sensors = Inl msg \<or> v3 sensors = Inl msg
           \<or> v4 sensors = Inl msg \<or> v5 sensors = Inl msg"
  shows "overall_status (perform_full_validation (Inr sensors) v1 v2 v3 v4 v5) = ''ERROR''"
proof -
  have "''ERROR'' \<in> set (map (\<lambda>(name, r). cat_status r)
          (fst (fold (run_category sensors) (category_functions v1 v2 v3 v4 v5) ([], 0))))"
    unfolding run_categories using assms by (elim disjE) (simp_all add: error_stub_def)
  then show ?thesis
    by (simp only: overall_status_collected Let_def if_True)
qed

text \<open>
  Claim C6.  When the readings were collected, the report holds for each of the five
  categories the result its validation function returned, or, when that function raised,
  the stub with status \<^verbatim>\<open>ERROR\<close> and the text of the exception: what one category does has
  no effect on another's entry.  When some category raised, the overall status is
  \<^verbatim>\<open>ERROR\<close>.  In every case, collection failure included, the function returns a report
  whose overall status is one of \<^verbatim>\<open>PASS\<close>, \<^verbatim>\<open>WARNING\<close>, \<^verbatim>\<open>FAIL\<close> and \<^verbatim>\<open>ERROR\<close>.
\<close>

theorem perform_full_validation_isolates_errors:
  "category_results (perform_full_validation (Inr sensors) v1 v2 v3 v4 v5)
     = [(''voltages'', case v1 sensors of Inl msg \<Rightarrow> error_stub msg | Inr r \<Rightarrow> r),
        (''temperatures'', case v2 sensors of Inl msg \<Rightarrow> error_stub msg | Inr r \<Rightarrow> r),
        (''fans'', case v3 sensors of Inl msg \<Rightarrow> error_stub msg | Inr r \<Rightarrow> r),
        (''power'', case v4 sensors of Inl msg \<Rightarrow> error_stub msg | Inr r \<Rightarrow> r),
        (''discrete'', case v5 sensors of Inl msg \<Rightarrow> error_stub msg | Inr r \<Rightarrow> r)]
   \<and> cat_status (error_stub e) = ''ERROR'' \<and> cat_error (error_stub e) = Some e
   \<and> (v1 sensors = Inl e \<or> v2 sensors = Inl e \<or> v3 sensors = Inl e \<or> v4 sensors = Inl e
        \<or> v5 sensors = Inl e
      \<longrightarrow> overall_status (perform_full_validation (Inr sensors) v1 v2 v3 v4 v5) = ''ERROR'')
   \<and> overall_status (perform_full_validation collected v1 v2 v3 v4 v5)
        \<in> set [''PASS'', ''WARNING'', ''FAIL'', ''ERROR'']"
proof (intro conjI impI)
  show "category_results (perform_full_validation (Inr sensors) v1 v2 v3 v4 v5)
     = [(''voltages'', case v1 sensors of Inl msg \<Rightarrow> error_stub msg | Inr r \<Rightarrow> r),
        (''temperatures'', case v2 sensors of Inl msg \<Rightarrow> error_stub msg | Inr r \<Rightarrow> r),
        (''fans'', case v3 sensors of Inl msg \<Rightarrow> error_stub msg | Inr r \<Rightarrow> r),
        (''power'', case v4 sensors of Inl msg \<Rightarrow> error_stub msg | Inr r \<Rightarrow> r),
        (''discrete'', case v5 sensors of Inl msg \<Rightarrow> error_stub msg | Inr r \<Rightarrow> r)]"
    by (simp only: category_results_collected run_categories)
  show "cat_status (error_stub e) = ''ERROR''" by (simp add: error_stub_def)
  show "cat_error (error_stub e) = Some e" by (simp add: error_stub_def)
  show "overall_status (perform_full_validation (Inr sensors) v1 v2 v3 v4 v5) = ''ERROR''"
    if "v1 sensors = Inl e \<or> v2 sensors = Inl e \<or> v3 sensors = Inl e \<or> v4 sensors = Inl e
        \<or> v5 sensors = Inl e"
    using that by (rule overall_status_error)
  show "overall_status (perform_full_validation collected v1 v2 v3 v4 v5)
        \<in> set [''PASS'', ''WARNING'', ''FAIL'', ''ERROR'']"
    by (rule overall_status_range)
qed

theorem perform_full_validation_isolates_errors_witness:
  "category_results
     (perform_full_validation (Inr psu_readings) (\<lambda>s. Inl ''limits are not a mapping'')
        (\<lambda>s. Inr create_validation_result_dict) (\<lambda>s. Inr create_validation_result_dict)
        (\<lambda>s. Inr create_validation_result_dict) (\<lambda>s. Inr (validate_discrete_sensors psu_limits s)))
     = [(''voltages'', error_stub ''limits are not a mapping''),
        (''temperatures'', create_validation_result_dict),
        (''fans'', create_validation_result_dict),
        (''power'', create_validation_result_dict),
        (''discrete'', validate_discrete_sensors psu_limits psu_readings)]
   \<and> overall_status
       (perform_full_validation (Inr psu_readings) (\<lambda>s. Inl ''limits are not a mapping'')
          (\<lambda>s. Inr create_validation_result_dict) (\<lambda>s. Inr create_validation_result_dict)
          (\<lambda>s. Inr create_validation_result_dict) (\<lambda>s. Inr (validate_discrete_sensors psu_limits s)))
       = ''ERROR''"
proof -
  note t = perform_full_validation_isolates_errors
    [of psu_readings "\<lambda>s. Inl ''limits are not a mapping''"
        "\<lambda>s. Inr create_validation_result_dict" "\<lambda>s. Inr create_validation_result_dict"
        "\<lambda>s. Inr create_validation_result_dict"
        "\<lambda>s. Inr (validate_discrete_sensors psu_limits s)" "''limits are not a mapping''"]
  have a: "category_results
     (perform_full_validation (Inr psu_readings) (\<lambda>s. Inl ''limits are not a mapping'')
        (\<lambda>s. Inr create_validation_result_dict) (\<lambda>s. Inr create_validation_result_dict)
        (\<lambda>s. Inr create_validation_result_dict) (\<lambda>s. Inr (validate_discrete_sensors psu_limits s)))
     = [(''voltages'', error_stub ''limits are not a mapping''),
        (''temperatures'', create_validation_result_dict),
        (''fans'', create_validation_result_dict),
        (''power'', create_validation_result_dict),
        (''discrete'', validate_discrete_sensors psu_limits psu_readings)]"
    using t [THEN conjunct1] by (simp only: sum.case)
  have b: "overall_status
       (perform_full_validation (Inr psu_readings) (\<lambda>s. Inl ''limits are not a mapping'')
          (\<lambda>s. Inr create_validation_result_dict) (\<lambda>s. Inr create_validation_result_dict)
          (\<lambda>s. Inr create_validation_result_dict) (\<lambda>s. Inr (validate_discrete_sensors psu_limits s)))
       = ''ERROR''"
    using t [THEN conjunct2, THEN conjunct2, THEN conjunct2, THEN conjunct1] by (simp only: simp_thms)
  show ?thesis using a b by (rule conjI)
qed

subsection \<open>The order of the findings\<close>

text \<open>
  Claim C9 does not hold of the processor, PCI and USB comparators: they loop over the
  set of keys itself, without sorting it.  For a baseline with two processors (two Ethernet
  ports, two root hubs) and an empty current snapshot, the descending order of the keys is
  an iteration order of the set as well as the ascending one, and the findings come out in
  the order of the iteration: two runs on the same input can list them differently.
\<close>

theorem unsorted_key_iteration:
  "set_iteration [''CPU1'', ''CPU0''] (processor_keys [] [cpu0, cpu1])
   \<and> compare_processors [''CPU1'', ''CPU0''] [] [cpu0, cpu1]
       = Inr \<lparr>status = ''FAIL'',
              differences = [''CPU count mismatch: current=0, baseline=2'',
                             ''CPU socket CPU1 missing in current system'',
                             ''CPU socket CPU0 missing in current system'']\<rparr>
   \<and> set_iteration [''CPU0'', ''CPU1''] (processor_keys [] [cpu0, cpu1])
   \<and> compare_processors [''CPU0'', ''CPU1''] [] [cpu0, cpu1]
       = Inr \<lparr>status = ''FAIL'',
              differences = [''CPU count mismatch: current=0, baseline=2'',
                             ''CPU socket CPU0 missing in current system'',
                             ''CPU socket CPU1 missing in current system'']\<rparr>
   \<and> set_iteration [''17:00.1'', ''17:00.0'']
         (pci_keys [] [ethernet_port ''17:00.0'', ethernet_port ''17:00.1''])
   \<and> compare_pci_devices [''17:00.1'', ''17:00.0''] []
         [ethernet_port ''17:00.0'', ethernet_port ''17:00.1'']
       = \<lparr>status = ''FAIL'',
          differences = [''Ethernet controller: expected 2, found 0'',
                         ''Critical device 17:00.1 missing'',
                         ''Critical device 17:00.0 missing'']\<rparr>
   \<and> set_iteration [''1d6b:0003'', ''1d6b:0002'']
         (usb_keys [] [root_hub ''1d6b:0002'' ''Linux Foundation 2.0 root hub'',
                       root_hub ''1d6b:0003'' ''Linux Foundation 3.0 root hub''])
   \<and> differences
         (compare_usb_devices [''1d6b:0003'', ''1d6b:0002''] []
            [root_hub ''1d6b:0002'' ''Linux Foundation 2.0 root hub'',
             root_hub ''1d6b:0003'' ''Linux Foundation 3.0 root hub''])
       = [''USB device 1d6b:0003 (Linux Foundation 3.0 root hub): expected 1, found 0'',
          ''USB device 1d6b:0002 (Linux Foundation 2.0 root hub): expected 1, found 0'']"
proof (intro conjI)
  show "set_iteration [''CPU1'', ''CPU0''] (processor_keys [] [cpu0, cpu1])"
    by code_simp
  show "compare_processors [''CPU1'', ''CPU0''] [] [cpu0, cpu1]
       = Inr \<lparr>status = ''FAIL'',
              differences = [''CPU count mismatch: current=0, baseline=2'',
                             ''CPU socket CPU1 missing in current system'',
                             ''CPU socket CPU0 missing in current system'']\<rparr>"
    by code_simp
  show "set_iteration [''CPU0'', ''CPU1''] (processor_keys [] [cpu0, cpu1])"
    by code_simp
  show "compare_processors [''CPU0'', ''CPU1''] [] [cpu0, cpu1]
       = Inr \<lparr>status = ''FAIL'',
              differences = [''CPU count mismatch: current=0, baseline=2'',
                             ''CPU socket CPU0 missing in current system'',
                             ''CPU socket CPU1 missing in current system'']\<rparr>"
    by code_simp
  show "set_iteration [''17:00.1'', ''17:00.0'']
         (pci_keys [] [ethernet_port ''17:00.0'', ethernet_port ''17:00.1''])"
    by code_simp
  show "compare_pci_devices [''17:00.1'', ''17:00.0''] []
         [ethernet_port ''17:00.0'', ethernet_port ''17:00.1'']
       = \<lparr>status = ''FAIL'',
          differences = [''Ethernet controller: expected 2, found 0'',
                         ''Critical device 17:00.1 missing'',
                         ''Critical device 17:00.0 missing'']\<rparr>"
    by code_simp
  show "set_iteration [''1d6b:0003'', ''1d6b:0002'']
         (usb_keys [] [root_hub ''1d6b:0002'' ''Linux Foundation 2.0 root hub'',
                       root_hub ''1d6b:0003'' ''Linux Foundation 3.0 root hub''])"
    by code_simp
  show "differences
         (compare_usb_devices [''1d6b:0003'', ''1d6b:0002''] []
            [root_hub ''1d6b:0002'' ''Linux Foundation 2.0 root hub'',
             root_hub ''1d6b:0003'' ''Linux Foundation 3.0 root hub''])
       = [''USB device 1d6b:0003 (Linux Foundation 3.0 root hub): expected 1, found 0'',
          ''USB device 1d6b:0002 (Linux Foundation 2.0 root hub): expected 1, found 0'']"
    by code_simp
qed

end
